theory Spec2Isabelle
  imports Complex_Main
begin

text \<open>
  A shallow embedding of the trading bot's core: the paper-trading ledger
  (\<^verbatim>\<open>src/paper_trader.py\<close>), the report computed from its trade log
  (\<^verbatim>\<open>src/reporting.py\<close>) and the Alor market-data client
  (\<^verbatim>\<open>src/alor_client.py\<close>). Methods that mutate their object take the object and
  return it as the call leaves it; an exception is a value of the result. The definitions
  come first, the properties follow from the section on the ledger's properties onwards.
\<close>

section \<open>The paper-trading ledger (src/paper\_trader.py)\<close>

text \<open>
  Python floats are read as real numbers here: every comparison and arithmetic step of the
  source is kept, rounding and the special values (NaN, infinities) are left out. The
  section on Python floats below models the ledger with them, for the property of the cash
  that depends on them.
  \<open>TradeSide\<close> is a plain string in the source, so an order may carry a side that is
  neither \<open>''BUY''\<close> nor \<open>''SELL''\<close>.
\<close>

type_synonym TradeSide = string

type_synonym datetime = nat

record Position =
  symbol :: string
  quantity :: real
  avg_price :: real
  stop_loss :: "real option"
  take_profit :: "real option"

record Order =
  order_symbol :: string
  order_side :: TradeSide
  order_quantity :: real
  order_price :: real
  order_stop_loss :: "real option"
  order_take_profit :: "real option"
  order_timestamp :: datetime

text \<open>
  Every failure of the ledger is a Python \<open>ValueError\<close>; the constructors stand for the
  messages, in the order in which the source raises them.
\<close>

datatype ledger_error =
    NonPositiveInitialCash
  | NonPositiveQuantity
  | NonPositivePrice
  | InsufficientFunds
  | InsufficientPosition
  | UnknownSide
  | StopNotBelowTake

text \<open>
  One data row of the trade log, as \<open>csv.writer\<close> receives it. An absent stop-loss or
  take-profit is written as the empty cell (\<open>None\<close>). The cash cell is kept as the
  reader's \<open>float(row["cash"])\<close> sees it: \<open>None\<close> stands for a cell that is missing or
  does not parse as a number (possible only in a file that existed before).
\<close>

record log_row =
  row_timestamp :: datetime
  row_symbol :: string
  row_side :: TradeSide
  row_quantity :: real
  row_price :: real
  row_stop_loss :: "real option"
  row_take_profit :: "real option"
  row_cash :: "real option"

text \<open>
  The trader owns its cash, the dictionary of positions and the log file. The file's
  header row is implicit: \<open>trades_log\<close> holds the data rows, oldest first.
\<close>

record PaperTrader =
  cash :: real
  positions :: "string \<rightharpoonup> Position"
  trades_log :: "log_row list"

definition new_Position :: "string \<Rightarrow> Position" where
  "new_Position s =
     \<lparr>symbol = s, quantity = 0, avg_price = 0, stop_loss = None, take_profit = None\<rparr>"

text \<open>\<open>Position.update\<close>: the dataclass method, returning the mutated position.\<close>

definition Position_update ::
  "TradeSide \<Rightarrow> real \<Rightarrow> real \<Rightarrow> Position \<Rightarrow> ledger_error + Position" where
  "Position_update side qty price p =
     (if side = ''BUY'' then
        (let total_cost = avg_price p * quantity p + price * qty;
             p1 = p\<lparr>quantity := quantity p + qty\<rparr>
         in Inr (if quantity p1 > 0 then p1\<lparr>avg_price := total_cost / quantity p1\<rparr> else p1))
      else if side = ''SELL'' then
        (let p1 = p\<lparr>quantity := quantity p - qty\<rparr>
         in Inr (if quantity p1 \<le> 0
                 then p1\<lparr>quantity := 0, avg_price := 0, stop_loss := None, take_profit := None\<rparr>
                 else p1))
      else Inl UnknownSide)"

text \<open>
  \<open>PaperTrader.__init__\<close> with \<open>_ensure_log_header\<close>: the second argument is the log
  file found on disk (\<open>None\<close> when there is none); an existing file is left as it is,
  a missing one is created with the header only.
\<close>

definition PaperTrader_init :: "real \<Rightarrow> log_row list option \<Rightarrow> ledger_error + PaperTrader" where
  "PaperTrader_init initial_cash file =
     (if initial_cash \<le> 0 then Inl NonPositiveInitialCash
      else Inr \<lparr>cash = initial_cash, positions = Map.empty,
                trades_log = (case file of None \<Rightarrow> [] | Some rows \<Rightarrow> rows)\<rparr>)"

text \<open>\<open>_log_trade\<close>: appends one row built from the order, the position and the cash.\<close>

definition log_trade :: "Order \<Rightarrow> Position \<Rightarrow> PaperTrader \<Rightarrow> PaperTrader" where
  "log_trade ord p t =
     t\<lparr>trades_log := trades_log t @
         [\<lparr>row_timestamp = order_timestamp ord, row_symbol = order_symbol ord,
           row_side = order_side ord, row_quantity = order_quantity ord,
           row_price = order_price ord, row_stop_loss = stop_loss p,
           row_take_profit = take_profit p, row_cash = Some (cash t)\<rparr>]\<rparr>"

text \<open>
  The position returned by \<open>setdefault\<close> is the object stored in the dictionary under
  the order's symbol, so each mutation of it is a mutation of that entry: \<open>store\<close>
  writes the mutated position back under the key.
\<close>

definition store :: "string \<Rightarrow> Position \<Rightarrow> PaperTrader \<Rightarrow> PaperTrader" where
  "store k p t = t\<lparr>positions := (positions t)(k \<mapsto> p)\<rparr>"

text \<open>
  Lines 100 to 116 of \<open>process_order\<close>: the cross check of the order's stop-loss and
  take-profit, the update of the position's levels, the log row and the removal of an
  emptied position. The position \<open>p\<close> is the entry already stored in \<open>t\<close>.
\<close>

definition settle_order :: "Order \<Rightarrow> Position \<Rightarrow> PaperTrader \<Rightarrow> ledger_error option \<times> PaperTrader" where
  "settle_order ord p t =
     (if (case order_stop_loss ord of None \<Rightarrow> False
          | Some sl \<Rightarrow> (case order_take_profit ord of None \<Rightarrow> False | Some tp \<Rightarrow> sl \<ge> tp))
      then (Some StopNotBelowTake, t)
      else
        (let p1 = (if quantity p > 0
                   then (let p2 = (case order_stop_loss ord of None \<Rightarrow> p
                                   | Some sl \<Rightarrow> p\<lparr>stop_loss := Some sl\<rparr>)
                         in (case order_take_profit ord of None \<Rightarrow> p2
                             | Some tp \<Rightarrow> p2\<lparr>take_profit := Some tp\<rparr>))
                   else p\<lparr>stop_loss := None, take_profit := None\<rparr>);
             t1 = log_trade ord p1 (store (order_symbol ord) p1 t)
         in if quantity p1 = 0
            then (None, t1\<lparr>positions := (positions t1)(order_symbol ord := None)\<rparr>)
            else (None, t1)))"

text \<open>
  \<open>PaperTrader.process_order\<close>. The result pairs the exception raised (\<open>None\<close> when the
  call returns) with the trader as the call leaves it, since the source mutates the
  trader before some of its raises.
\<close>

definition process_order :: "Order \<Rightarrow> PaperTrader \<Rightarrow> ledger_error option \<times> PaperTrader" where
  "process_order ord t =
     (if order_quantity ord \<le> 0 then (Some NonPositiveQuantity, t)
      else if order_price ord \<le> 0 then (Some NonPositivePrice, t)
      else
        (let position = (case positions t (order_symbol ord) of
                           Some p \<Rightarrow> p
                         | None \<Rightarrow> new_Position (order_symbol ord));
             t1 = store (order_symbol ord) position t
         in if order_side ord = ''BUY'' then
              (let cost = order_quantity ord * order_price ord
               in if cost > cash t1 then (Some InsufficientFunds, t1)
                  else
                    (let t2 = t1\<lparr>cash := cash t1 - cost\<rparr>
                     in case Position_update ''BUY'' (order_quantity ord) (order_price ord) position of
                          Inl e \<Rightarrow> (Some e, t2)
                        | Inr p \<Rightarrow>
                            settle_order ord p (store (order_symbol ord) p t2)))
            else if order_side ord = ''SELL'' then
              (if quantity position < order_quantity ord then (Some InsufficientPosition, t1)
               else
                 (let t2 = t1\<lparr>cash := cash t1 + order_quantity ord * order_price ord\<rparr>
                  in case Position_update ''SELL'' (order_quantity ord) (order_price ord) position of
                       Inl e \<Rightarrow> (Some e, t2)
                     | Inr p \<Rightarrow>
                         settle_order ord p (store (order_symbol ord) p t2)))
            else (Some UnknownSide, t1)))"


text \<open>
  \<open>check_stop_take\<close>. The clock value \<open>now\<close> is the timestamp that the \<open>Order\<close>
  dataclass gives a new order by default. The trader is returned as the call leaves it.
\<close>

definition check_stop_take ::
  "string \<Rightarrow> real \<Rightarrow> datetime \<Rightarrow> PaperTrader \<Rightarrow> Order option \<times> PaperTrader" where
  "check_stop_take s current_price now t =
     (case positions t s of
        None \<Rightarrow> (None, t)
      | Some position \<Rightarrow>
          if quantity position = 0 then (None, t)
          else if (case stop_loss position of None \<Rightarrow> False | Some sl \<Rightarrow> current_price \<le> sl)
          then (Some \<lparr>order_symbol = s, order_side = ''SELL'',
                       order_quantity = quantity position, order_price = current_price,
                       order_stop_loss = stop_loss position, order_take_profit = None,
                       order_timestamp = now\<rparr>, t)
          else if (case take_profit position of None \<Rightarrow> False | Some tp \<Rightarrow> current_price \<ge> tp)
          then (Some \<lparr>order_symbol = s, order_side = ''SELL'',
                       order_quantity = quantity position, order_price = current_price,
                       order_stop_loss = None, order_take_profit = take_profit position,
                       order_timestamp = now\<rparr>, t)
          else (None, t))"


section \<open>The ledger on Python floats\<close>

text \<open>
  The model above reads the ledger's numbers as reals. Python's \<open>float\<close> is an IEEE
  binary64 value: every result is rounded, a result beyond the largest finite value is an
  infinity, and \<open>inf - inf\<close> and \<open>inf * 0\<close> are NaN, which every comparison answers
  with \<open>False\<close>. Where a property of the ledger depends on that, the ledger is modelled
  again over the values below, statement by statement as before. The rounding is a
  parameter: \<open>rnd\<close> maps the exact result to the value kept and \<open>fmax\<close> is the largest
  finite value. The two zeros of IEEE compare equal and are one value here. The fields are
  floats, as the dataclasses declare them.
\<close>

datatype pyfloat = Fin real | PInf | NInf | NaN

record float_format =
  rnd :: "real \<Rightarrow> real"
  fmax :: real

text \<open>
  What every IEEE rounding mode satisfies, and all that the properties below need:
  rounding is monotone and keeps zero.
\<close>

definition format_ok :: "float_format \<Rightarrow> bool" where
  "format_ok f = (mono (rnd f) \<and> rnd f 0 = 0 \<and> 0 \<le> fmax f)"

text \<open>
  Exact arithmetic within the range of binary64. On operands and results that binary64
  represents exactly (small integers, powers of two) it computes what Python computes.
\<close>

definition binary64_exact :: float_format where
  "binary64_exact = \<lparr>rnd = (\<lambda>x. x), fmax = (2 ^ 53 - 1) * 2 ^ 971\<rparr>"

definition fl :: "float_format \<Rightarrow> real \<Rightarrow> pyfloat" where
  "fl f x =
     (let y = rnd f x
      in if fmax f < y then PInf else if y < - fmax f then NInf else Fin y)"

fun fneg :: "pyfloat \<Rightarrow> pyfloat" where
  "fneg (Fin x) = Fin (- x)"
| "fneg PInf = NInf"
| "fneg NInf = PInf"
| "fneg NaN = NaN"

fun fadd :: "float_format \<Rightarrow> pyfloat \<Rightarrow> pyfloat \<Rightarrow> pyfloat" where
  "fadd f NaN b = NaN"
| "fadd f a NaN = NaN"
| "fadd f PInf NInf = NaN"
| "fadd f NInf PInf = NaN"
| "fadd f PInf b = PInf"
| "fadd f a PInf = PInf"
| "fadd f NInf b = NInf"
| "fadd f a NInf = NInf"
| "fadd f (Fin x) (Fin y) = fl f (x + y)"

definition fsub :: "float_format \<Rightarrow> pyfloat \<Rightarrow> pyfloat \<Rightarrow> pyfloat" where
  "fsub f a b = fadd f a (fneg b)"

fun fmul :: "float_format \<Rightarrow> pyfloat \<Rightarrow> pyfloat \<Rightarrow> pyfloat" where
  "fmul f NaN b = NaN"
| "fmul f a NaN = NaN"
| "fmul f (Fin x) (Fin y) = fl f (x * y)"
| "fmul f (Fin x) PInf = (if x = 0 then NaN else if 0 < x then PInf else NInf)"
| "fmul f (Fin x) NInf = (if x = 0 then NaN else if 0 < x then NInf else PInf)"
| "fmul f PInf (Fin y) = (if y = 0 then NaN else if 0 < y then PInf else NInf)"
| "fmul f NInf (Fin y) = (if y = 0 then NaN else if 0 < y then NInf else PInf)"
| "fmul f PInf PInf = PInf"
| "fmul f PInf NInf = NInf"
| "fmul f NInf PInf = NInf"
| "fmul f NInf NInf = PInf"

text \<open>Python's \<open>/\<close> on floats raises \<open>ZeroDivisionError\<close> on a zero divisor (\<open>None\<close>).\<close>

fun fdiv :: "float_format \<Rightarrow> pyfloat \<Rightarrow> pyfloat \<Rightarrow> pyfloat option" where
  "fdiv f a (Fin y) =
     (if y = 0 then None
      else (case a of
              Fin x \<Rightarrow> Some (fl f (x / y))
            | PInf \<Rightarrow> Some (if 0 < y then PInf else NInf)
            | NInf \<Rightarrow> Some (if 0 < y then NInf else PInf)
            | NaN \<Rightarrow> Some NaN))"
| "fdiv f a NaN = Some NaN"
| "fdiv f NaN b = Some NaN"
| "fdiv f (Fin x) b = Some (Fin 0)"
| "fdiv f a b = Some NaN"

text \<open>The comparisons \<open><=\<close>, \<open><\<close> and \<open>==\<close>; \<open>a > b\<close> is \<open>flt b a\<close> and \<open>a >= b\<close> is \<open>fle b a\<close>.\<close>

fun fle :: "pyfloat \<Rightarrow> pyfloat \<Rightarrow> bool" where
  "fle NaN b = False"
| "fle a NaN = False"
| "fle NInf b = True"
| "fle a PInf = True"
| "fle (Fin x) (Fin y) = (x \<le> y)"
| "fle a b = False"

fun flt :: "pyfloat \<Rightarrow> pyfloat \<Rightarrow> bool" where
  "flt NaN b = False"
| "flt a NaN = False"
| "flt (Fin x) (Fin y) = (x < y)"
| "flt PInf b = False"
| "flt a NInf = False"
| "flt a b = True"

definition feq :: "pyfloat \<Rightarrow> pyfloat \<Rightarrow> bool" where
  "feq a b = (a = b \<and> a \<noteq> NaN)"

text \<open>A cash value that is not below zero: at least zero, or NaN.\<close>

definition not_negative :: "pyfloat \<Rightarrow> bool" where
  "not_negative c = (c = NaN \<or> fle (Fin 0) c)"

record Position_fl =
  fl_symbol :: string
  fl_quantity :: pyfloat
  fl_avg_price :: pyfloat
  fl_stop_loss :: "pyfloat option"
  fl_take_profit :: "pyfloat option"

record Order_fl =
  fl_order_symbol :: string
  fl_order_side :: TradeSide
  fl_order_quantity :: pyfloat
  fl_order_price :: pyfloat
  fl_order_stop_loss :: "pyfloat option"
  fl_order_take_profit :: "pyfloat option"
  fl_order_timestamp :: datetime

record log_row_fl =
  fl_row_timestamp :: datetime
  fl_row_symbol :: string
  fl_row_side :: TradeSide
  fl_row_quantity :: pyfloat
  fl_row_price :: pyfloat
  fl_row_stop_loss :: "pyfloat option"
  fl_row_take_profit :: "pyfloat option"
  fl_row_cash :: pyfloat

record PaperTrader_fl =
  fl_cash :: pyfloat
  fl_positions :: "string \<rightharpoonup> Position_fl"
  fl_trades_log :: "log_row_fl list"

text \<open>The ledger's \<open>ValueError\<close>s, and the \<open>ZeroDivisionError\<close> of a float division.\<close>

datatype ledger_error_fl = LedgerValueError ledger_error | LedgerZeroDivisionError

definition new_Position_fl :: "string \<Rightarrow> Position_fl" where
  "new_Position_fl s =
     \<lparr>fl_symbol = s, fl_quantity = Fin 0, fl_avg_price = Fin 0, fl_stop_loss = None,
      fl_take_profit = None\<rparr>"

definition Position_update_fl ::
  "float_format \<Rightarrow> TradeSide \<Rightarrow> pyfloat \<Rightarrow> pyfloat \<Rightarrow> Position_fl
     \<Rightarrow> ledger_error_fl + Position_fl" where
  "Position_update_fl f side qty price p =
     (if side = ''BUY'' then
        (let total_cost = fadd f (fmul f (fl_avg_price p) (fl_quantity p)) (fmul f price qty);
             p1 = p\<lparr>fl_quantity := fadd f (fl_quantity p) qty\<rparr>
         in if flt (Fin 0) (fl_quantity p1)
            then (case fdiv f total_cost (fl_quantity p1) of
                    None \<Rightarrow> Inl LedgerZeroDivisionError
                  | Some a \<Rightarrow> Inr (p1\<lparr>fl_avg_price := a\<rparr>))
            else Inr p1)
      else if side = ''SELL'' then
        (let p1 = p\<lparr>fl_quantity := fsub f (fl_quantity p) qty\<rparr>
         in Inr (if fle (fl_quantity p1) (Fin 0)
                 then p1\<lparr>fl_quantity := Fin 0, fl_avg_price := Fin 0, fl_stop_loss := None,
                         fl_take_profit := None\<rparr>
                 else p1))
      else Inl (LedgerValueError UnknownSide))"

definition PaperTrader_init_fl ::
  "pyfloat \<Rightarrow> log_row_fl list option \<Rightarrow> ledger_error_fl + PaperTrader_fl" where
  "PaperTrader_init_fl initial_cash file =
     (if fle initial_cash (Fin 0) then Inl (LedgerValueError NonPositiveInitialCash)
      else Inr \<lparr>fl_cash = initial_cash, fl_positions = Map.empty,
                fl_trades_log = (case file of None \<Rightarrow> [] | Some rows \<Rightarrow> rows)\<rparr>)"

definition log_trade_fl :: "Order_fl \<Rightarrow> Position_fl \<Rightarrow> PaperTrader_fl \<Rightarrow> PaperTrader_fl" where
  "log_trade_fl ord p t =
     t\<lparr>fl_trades_log := fl_trades_log t @
         [\<lparr>fl_row_timestamp = fl_order_timestamp ord, fl_row_symbol = fl_order_symbol ord,
           fl_row_side = fl_order_side ord, fl_row_quantity = fl_order_quantity ord,
           fl_row_price = fl_order_price ord, fl_row_stop_loss = fl_stop_loss p,
           fl_row_take_profit = fl_take_profit p, fl_row_cash = fl_cash t\<rparr>]\<rparr>"

definition store_fl :: "string \<Rightarrow> Position_fl \<Rightarrow> PaperTrader_fl \<Rightarrow> PaperTrader_fl" where
  "store_fl k p t = t\<lparr>fl_positions := (fl_positions t)(k \<mapsto> p)\<rparr>"

text \<open>Lines 100 to 116 of \<open>process_order\<close>, as \<open>settle_order\<close> above.\<close>

definition settle_order_fl ::
  "Order_fl \<Rightarrow> Position_fl \<Rightarrow> PaperTrader_fl \<Rightarrow> ledger_error_fl option \<times> PaperTrader_fl" where
  "settle_order_fl ord p t =
     (if (case fl_order_stop_loss ord of None \<Rightarrow> False
          | Some sl \<Rightarrow> (case fl_order_take_profit ord of None \<Rightarrow> False | Some tp \<Rightarrow> fle tp sl))
      then (Some (LedgerValueError StopNotBelowTake), t)
      else
        (let p1 = (if flt (Fin 0) (fl_quantity p)
                   then (let p2 = (case fl_order_stop_loss ord of None \<Rightarrow> p
                                   | Some sl \<Rightarrow> p\<lparr>fl_stop_loss := Some sl\<rparr>)
                         in (case fl_order_take_profit ord of None \<Rightarrow> p2
                             | Some tp \<Rightarrow> p2\<lparr>fl_take_profit := Some tp\<rparr>))
                   else p\<lparr>fl_stop_loss := None, fl_take_profit := None\<rparr>);
             t1 = log_trade_fl ord p1 (store_fl (fl_order_symbol ord) p1 t)
         in if feq (fl_quantity p1) (Fin 0)
            then (None, t1\<lparr>fl_positions := (fl_positions t1)(fl_order_symbol ord := None)\<rparr>)
            else (None, t1)))"

text \<open>\<open>PaperTrader.process_order\<close> on floats, as \<open>process_order\<close> above.\<close>

definition process_order_fl ::
  "float_format \<Rightarrow> Order_fl \<Rightarrow> PaperTrader_fl \<Rightarrow> ledger_error_fl option \<times> PaperTrader_fl" where
  "process_order_fl f ord t =
     (if fle (fl_order_quantity ord) (Fin 0) then (Some (LedgerValueError NonPositiveQuantity), t)
      else if fle (fl_order_price ord) (Fin 0) then (Some (LedgerValueError NonPositivePrice), t)
      else
        (let position = (case fl_positions t (fl_order_symbol ord) of
                           Some p \<Rightarrow> p
                         | None \<Rightarrow> new_Position_fl (fl_order_symbol ord));
             t1 = store_fl (fl_order_symbol ord) position t
         in if fl_order_side ord = ''BUY'' then
              (let cost = fmul f (fl_order_quantity ord) (fl_order_price ord)
               in if flt (fl_cash t1) cost then (Some (LedgerValueError InsufficientFunds), t1)
                  else
                    (let t2 = t1\<lparr>fl_cash := fsub f (fl_cash t1) cost\<rparr>
                     in case Position_update_fl f ''BUY'' (fl_order_quantity ord)
                               (fl_order_price ord) position of
                          Inl e \<Rightarrow> (Some e, t2)
                        | Inr p \<Rightarrow>
                            settle_order_fl ord p (store_fl (fl_order_symbol ord) p t2)))
            else if fl_order_side ord = ''SELL'' then
              (if flt (fl_quantity position) (fl_order_quantity ord)
               then (Some (LedgerValueError InsufficientPosition), t1)
               else
                 (let t2 = t1\<lparr>fl_cash := fadd f (fl_cash t1)
                                          (fmul f (fl_order_quantity ord) (fl_order_price ord))\<rparr>
                  in case Position_update_fl f ''SELL'' (fl_order_quantity ord)
                            (fl_order_price ord) position of
                       Inl e \<Rightarrow> (Some e, t2)
                     | Inr p \<Rightarrow>
                         settle_order_fl ord p (store_fl (fl_order_symbol ord) p t2)))
            else (Some (LedgerValueError UnknownSide), t1)))"

fun process_orders_fl :: "float_format \<Rightarrow> Order_fl list \<Rightarrow> PaperTrader_fl \<Rightarrow> PaperTrader_fl" where
  "process_orders_fl f [] t = t"
| "process_orders_fl f (ord # ords) t =
     process_orders_fl f ords (snd (process_order_fl f ord t))"

section \<open>The report (src/reporting.py)\<close>

record TradingReport =
  final_balance :: real
  pnl :: real
  return_pct :: real
  max_drawdown_pct :: real

datatype report_error = ReportNonPositiveInitialCash | ReportIndexError

text \<open>
  The loop of \<open>_read_cash_series\<close> over the rows of the file: a row whose cash cell does
  not parse is skipped, every other row appends its cash to the series.
\<close>

fun read_rows :: "log_row list \<Rightarrow> real list \<Rightarrow> real list" where
  "read_rows [] cash_values = cash_values"
| "read_rows (row # rows) cash_values =
     (case row_cash row of
        None \<Rightarrow> read_rows rows cash_values
      | Some c \<Rightarrow> read_rows rows (cash_values @ [c]))"

text \<open>\<open>_read_cash_series\<close>: the file is \<open>None\<close> when the path does not exist.\<close>

definition read_cash_series :: "log_row list option \<Rightarrow> real \<Rightarrow> real list" where
  "read_cash_series file initial_cash =
     (case file of
        None \<Rightarrow> [initial_cash]
      | Some rows \<Rightarrow>
          (let cash_values = read_rows rows [initial_cash]
           in if cash_values = [] then cash_values @ [initial_cash] else cash_values))"

text \<open>
  The loop of \<open>_calculate_max_drawdown\<close>, with its two variables: the running peak
  (\<open>None\<close> before the first value) and the largest drawdown seen so far, in percent.
\<close>

fun drawdown_loop :: "real list \<Rightarrow> real option \<Rightarrow> real \<Rightarrow> real" where
  "drawdown_loop [] peak max_drawdown = max_drawdown"
| "drawdown_loop (v # vs) None max_drawdown = drawdown_loop vs (Some v) max_drawdown"
| "drawdown_loop (v # vs) (Some pk) max_drawdown =
     (let peak = (if v > pk then v else pk)
      in if peak > 0
         then (let drawdown = (peak - v) / peak * 100
               in drawdown_loop vs (Some peak)
                    (if drawdown > max_drawdown then drawdown else max_drawdown))
         else drawdown_loop vs (Some peak) max_drawdown)"

definition calculate_max_drawdown :: "real list \<Rightarrow> real" where
  "calculate_max_drawdown vs = drawdown_loop vs None 0"

text \<open>
  \<open>generate_report\<close>. \<open>cash_series[-1]\<close> raises on an empty list, which
  \<open>read_cash_series\<close> never returns.
\<close>

definition generate_report :: "real \<Rightarrow> log_row list option \<Rightarrow> report_error + TradingReport" where
  "generate_report initial_cash file =
     (if initial_cash \<le> 0 then Inl ReportNonPositiveInitialCash
      else
        (let cash_series = read_cash_series file initial_cash
         in if cash_series = [] then Inl ReportIndexError
            else
              (let final = last cash_series;
                   p = final - initial_cash;
                   r = p / initial_cash * 100;
                   max_drawdown = calculate_max_drawdown cash_series
               in Inr \<lparr>final_balance = final, pnl = p, return_pct = r,
                        max_drawdown_pct = max_drawdown\<rparr>)))"

section \<open>The market-data client (src/alor\_client.py)\<close>

subsection \<open>Exceptions and JSON values\<close>

text \<open>
  The exception classes that the client defines, catches or lets through. \<open>OtherError\<close>
  stands for any further subclass of \<open>Exception\<close>, by name. \<open>WebSocketException\<close> and
  \<open>RequestException\<close> stand for the library class and those of its subclasses that are
  not listed.
\<close>

datatype exc_class =
    AlorAPIError
  | AlorAuthError
  | AlorConnectionError
  | ConnectionClosedError
  | WebSocketException
  | RequestException
  | ValueError
  | JSONDecodeError
  | UnicodeDecodeError
  | OtherError string

text \<open>The messages of the client's own exceptions, in the order of the source.\<close>

datatype message =
    TokenRequired
  | NoCandleData
  | RequestFailed string
  | InvalidToken
  | HttpStatus int string
  | InvalidJsonResponse
  | WsNotRestored
  | Unhandled
  | WsInvalidJson
  | WsUnauthorized
  | WsNotObject
  | Text string

text \<open>An exception: its class, its message and its \<open>__cause__\<close> (\<open>raise ... from exc\<close>).\<close>

datatype exn = Exn (exn_class: exc_class) (exn_message: message) (exn_cause: "exn option")

fun superclasses :: "exc_class \<Rightarrow> exc_class list" where
  "superclasses AlorAuthError = [AlorAPIError]"
| "superclasses AlorConnectionError = [AlorAPIError]"
| "superclasses ConnectionClosedError = [WebSocketException]"
| "superclasses JSONDecodeError = [ValueError]"
| "superclasses UnicodeDecodeError = [ValueError]"
| "superclasses c = []"

definition isinstance :: "exn \<Rightarrow> exc_class \<Rightarrow> bool" where
  "isinstance e c = (exn_class e = c \<or> c \<in> set (superclasses (exn_class e)))"

text \<open>
  A decoded JSON value. An object is the dictionary that the decoder builds, kept as a list
  of its items; \<open>dict_get\<close> is \<open>dict.get\<close>. Numbers are read as reals, so that
  \<open>401\<close> and \<open>401.0\<close> are equal as they are in Python.
\<close>

datatype json =
    JNull
  | JBool bool
  | JNum real
  | JStr string
  | JArr "json list"
  | JObj "(string \<times> json) list"

definition dict_get :: "(string \<times> json) list \<Rightarrow> string \<Rightarrow> json" where
  "dict_get items k = (case map_of items k of None \<Rightarrow> JNull | Some v \<Rightarrow> v)"

text \<open>
  The two library functions that the client calls on message text: \<open>bytes.decode("utf-8")\<close>
  and \<open>json.loads\<close>, each returning its value or the exception it raises.
\<close>

record pylib =
  utf8_decode :: "string \<Rightarrow> exn + string"
  json_loads :: "string \<Rightarrow> exn + json"

subsection \<open>REST queries\<close>

record CandleRequest =
  cr_symbol :: string
  cr_exchange :: string
  cr_interval :: string
  cr_limit :: int

text \<open>The arguments of \<open>session.get\<close> and the fields of the response that the client reads.\<close>

record http_request =
  req_url :: string
  req_headers :: "(string \<times> string) list"
  req_params :: "(string \<times> json) list"
  req_timeout :: int

record Response =
  status_code :: int
  ok :: bool
  response_text :: string
  json_result :: "exn + json"

record AlorClient =
  token :: string
  base_rest_url :: string
  base_ws_url :: string
  rest_timeout :: int
  session :: "http_request \<Rightarrow> exn + Response"

definition rstrip_slash :: "string \<Rightarrow> string" where
  "rstrip_slash s = rev (dropWhile (\<lambda>c. c = CHR ''/'') (rev s))"

definition AlorClient_init ::
  "string \<Rightarrow> string \<Rightarrow> string \<Rightarrow> int \<Rightarrow> (http_request \<Rightarrow> exn + Response) \<Rightarrow> exn + AlorClient" where
  "AlorClient_init tok rest_url ws_url timeout sess =
     (if tok = [] then Inl (Exn AlorAuthError TokenRequired None)
      else Inr \<lparr>token = tok, base_rest_url = rstrip_slash rest_url,
                base_ws_url = rstrip_slash ws_url, rest_timeout = timeout, session = sess\<rparr>)"







subsection \<open>The streaming subscription\<close>

datatype raw_message = Str string | Bytes string

text \<open>\<open>_parse_ws_message\<close>: only a \<open>JSONDecodeError\<close> of \<open>json.loads\<close> is caught.\<close>

definition parse_ws_message :: "pylib \<Rightarrow> raw_message \<Rightarrow> exn + json" where
  "parse_ws_message lib raw =
     (case (case raw of Bytes b \<Rightarrow> utf8_decode lib b | Str s \<Rightarrow> Inr s) of
        Inl exc \<Rightarrow> Inl exc
      | Inr txt \<Rightarrow>
          (case json_loads lib txt of
             Inl exc \<Rightarrow>
               if isinstance exc JSONDecodeError
               then Inl (Exn AlorAPIError WsInvalidJson (Some exc))
               else Inl exc
           | Inr payload \<Rightarrow>
               (case payload of
                  JObj items \<Rightarrow>
                    if dict_get items ''status'' = JNum 401
                    then Inl (Exn AlorAuthError WsUnauthorized None)
                    else Inr payload
                | _ \<Rightarrow> Inl (Exn AlorAPIError WsNotObject None))))"

text \<open>
  The caller's callback, plain or coroutine function. It may keep a state of its own
  (\<open>'s\<close>); it returns the exception it raises, if any, and its next state.
\<close>

datatype 's callback =
    SyncCallback "'s \<Rightarrow> json \<Rightarrow> exn option \<times> 's"
  | AsyncCallback "'s \<Rightarrow> json \<Rightarrow> exn option \<times> 's"

text \<open>
  What a run of \<open>subscribe_quotes\<close> does to the world, in order: the subscription frames
  sent, the payloads handed to the callback, the delays slept, and the callback's state.
\<close>

record 's ws_trace =
  callback_state :: 's
  sent_frames :: "json list"
  dispatched :: "json list"
  sleeps :: "real list"

text \<open>
  \<open>_dispatch_callback\<close>: the payload is handed to the callback in both branches; a
  coroutine function is awaited as well.
\<close>

definition dispatch_callback :: "'s callback \<Rightarrow> json \<Rightarrow> 's ws_trace \<Rightarrow> exn option \<times> 's ws_trace" where
  "dispatch_callback cb payload w =
     (case cb of
        AsyncCallback f \<Rightarrow>
          (let (r, s') = f (callback_state w) payload
           in (r, w\<lparr>callback_state := s', dispatched := dispatched w @ [payload]\<rparr>))
      | SyncCallback f \<Rightarrow>
          (let (r, s') = f (callback_state w) payload
           in (r, w\<lparr>callback_state := s', dispatched := dispatched w @ [payload]\<rparr>)))"

text \<open>
  The server side is a script. Each connection attempt either fails on connecting, or
  fails on sending the subscription frame, or yields the results of the successive
  \<open>recv\<close> calls; when these are used up, the next \<open>recv\<close> never returns.
\<close>

datatype recv_result = Recv raw_message | RecvRaises exn

record connection =
  connect_raises :: "exn option"
  send_raises :: "exn option"
  frames :: "recv_result list"

text \<open>How a call ends: it returns, it raises, or it waits for the network for ever.\<close>

datatype outcome = Returned | Raised exn | Blocked

definition subscribe_message :: "string \<Rightarrow> string \<Rightarrow> json" where
  "subscribe_message s exchange =
     JObj [(''opcode'', JStr ''QuotesSubscribe''), (''code'', JStr s),
           (''exchange'', JStr exchange), (''format'', JStr ''Simple'')]"

text \<open>
  The inner \<open>while True\<close> loop of \<open>subscribe_quotes\<close>, on the \<open>recv\<close> results that the
  connection still holds; \<open>received\<close> is the loop's counter.
\<close>

fun recv_loop ::
  "pylib \<Rightarrow> 's callback \<Rightarrow> int option \<Rightarrow> recv_result list \<Rightarrow> int \<Rightarrow> 's ws_trace
     \<Rightarrow> outcome \<times> 's ws_trace" where
  "recv_loop lib cb max_messages [] received w = (Blocked, w)"
| "recv_loop lib cb max_messages (RecvRaises exc # rest) received w = (Raised exc, w)"
| "recv_loop lib cb max_messages (Recv raw_message # rest) received w =
     (case parse_ws_message lib raw_message of
        Inl exc \<Rightarrow> (Raised exc, w)
      | Inr payload \<Rightarrow>
          (case dispatch_callback cb payload w of
             (Some exc, w1) \<Rightarrow> (Raised exc, w1)
           | (None, w1) \<Rightarrow>
               (let received1 = received + 1
                in if (case max_messages of None \<Rightarrow> False | Some m \<Rightarrow> received1 \<ge> m)
                   then (Returned, w1)
                   else recv_loop lib cb max_messages rest received1 w1)))"

text \<open>
  The body of the \<open>try\<close>: connect, send the subscription frame, then receive. It is left
  by \<open>return\<close> or by an exception only, so the \<open>else\<close> branch of the \<open>try\<close> and the flag
  \<open>subscriptions_sent\<close> that it reads play no part.
\<close>

definition try_body ::
  "pylib \<Rightarrow> 's callback \<Rightarrow> int option \<Rightarrow> string \<Rightarrow> string \<Rightarrow> connection \<Rightarrow> 's ws_trace
     \<Rightarrow> outcome \<times> 's ws_trace" where
  "try_body lib cb max_messages s exchange conn w =
     (case connect_raises conn of
        Some exc \<Rightarrow> (Raised exc, w)
      | None \<Rightarrow>
          (case send_raises conn of
             Some exc \<Rightarrow> (Raised exc, w)
           | None \<Rightarrow>
               recv_loop lib cb max_messages (frames conn) 0
                 (w\<lparr>sent_frames := sent_frames w @ [subscribe_message s exchange]\<rparr>)))"

text \<open>
  The outer \<open>while attempts <= reconnect_attempts\<close> loop with the handlers of the
  \<open>try\<close>, in the order of the source. Each pass opens the next connection of the script;
  with no connection left the call waits for ever.
\<close>

fun subscribe_loop ::
  "pylib \<Rightarrow> 's callback \<Rightarrow> int \<Rightarrow> real \<Rightarrow> int option \<Rightarrow> string \<Rightarrow> string
     \<Rightarrow> connection list \<Rightarrow> int \<Rightarrow> 's ws_trace \<Rightarrow> outcome \<times> 's ws_trace" where
  "subscribe_loop lib cb reconnect_attempts reconnect_delay max_messages s exchange
     [] attempts w =
     (if attempts \<le> reconnect_attempts then (Blocked, w) else (Returned, w))"
| "subscribe_loop lib cb reconnect_attempts reconnect_delay max_messages s exchange
     (conn # conns) attempts w =
     (if attempts \<le> reconnect_attempts then
        (case try_body lib cb max_messages s exchange conn w of
           (Raised exc, w1) \<Rightarrow>
             if isinstance exc ConnectionClosedError \<or> isinstance exc WebSocketException then
               (let attempts1 = attempts + 1
                in if attempts1 > reconnect_attempts
                   then (Raised (Exn AlorConnectionError WsNotRestored (Some exc)), w1)
                   else subscribe_loop lib cb reconnect_attempts reconnect_delay max_messages
                          s exchange conns attempts1
                          (w1\<lparr>sleeps := sleeps w1 @ [reconnect_delay]\<rparr>))
             else if isinstance exc AlorAuthError then (Raised exc, w1)
             else (Raised (Exn AlorAPIError Unhandled (Some exc)), w1)
         | (result, w1) \<Rightarrow> (result, w1))
      else (Returned, w))"

text \<open>
  \<open>subscribe_quotes\<close>, from the callback's initial state and the script of the
  connections to come.
\<close>

definition subscribe_quotes ::
  "pylib \<Rightarrow> string \<Rightarrow> string \<Rightarrow> 's callback \<Rightarrow> int \<Rightarrow> real \<Rightarrow> int option
     \<Rightarrow> connection list \<Rightarrow> 's \<Rightarrow> outcome \<times> 's ws_trace" where
  "subscribe_quotes lib s exchange cb reconnect_attempts reconnect_delay max_messages conns s0 =
     subscribe_loop lib cb reconnect_attempts reconnect_delay max_messages s exchange conns 0
       \<lparr>callback_state = s0, sent_frames = [], dispatched = [], sleeps = []\<rparr>"

text \<open>
  For stating when dispatches succeed: the function inside a callback, and the state in
  which the callback is after it has taken the payloads in turn without raising
  (\<open>None\<close> when it raises at one of them).
\<close>

fun callback_fun :: "'s callback \<Rightarrow> 's \<Rightarrow> json \<Rightarrow> exn option \<times> 's" where
  "callback_fun (SyncCallback f) = f"
| "callback_fun (AsyncCallback f) = f"

fun accepts :: "('s \<Rightarrow> json \<Rightarrow> exn option \<times> 's) \<Rightarrow> json list \<Rightarrow> 's \<Rightarrow> 's option" where
  "accepts f [] s = Some s"
| "accepts f (p # ps) s =
     (case f s p of (Some exc, s') \<Rightarrow> None | (None, s') \<Rightarrow> accepts f ps s')"

text \<open>
  Fixtures for concrete runs, in the manner of the repository's tests: a decoder that knows
  two texts, a callback that counts the payloads it is given, and a callback that counts the first
  \<open>k\<close> payloads and raises a given exception at every later one.
\<close>

definition demo_lib :: pylib where
  "demo_lib =
     \<lparr>utf8_decode = Inr,
      json_loads = (\<lambda>txt. if txt = ''{}'' then Inr (JObj [])
                           else if txt = ''[]'' then Inr (JArr [])
                           else Inl (Exn JSONDecodeError (Text txt) None))\<rparr>"

definition counting_callback :: "nat callback" where
  "counting_callback = SyncCallback (\<lambda>n payload. (None, Suc n))"

definition raising_callback :: "nat \<Rightarrow> exn \<Rightarrow> nat callback" where
  "raising_callback k exc =
     SyncCallback (\<lambda>n payload. if n < k then (None, Suc n) else (Some exc, n))"

definition open_connection :: "recv_result list \<Rightarrow> connection" where
  "open_connection rs = \<lparr>connect_raises = None, send_raises = None, frames = rs\<rparr>"

section \<open>Properties of the ledger\<close>

lemma settle_order_cash: "cash (snd (settle_order ord p t)) = cash t"
  by (simp add: settle_order_def store_def log_trade_def Let_def)

lemma settle_order_raise:
  "fst (settle_order ord p t) = Some e \<Longrightarrow> e = StopNotBelowTake \<and> snd (settle_order ord p t) = t"
  by (simp add: settle_order_def Let_def split: if_splits)

lemma Position_update_BUY:
  "Position_update ''BUY'' q pr p =
     Inr (if 0 < quantity p + q
          then p\<lparr>quantity := quantity p + q,
                 avg_price := (avg_price p * quantity p + pr * q) / (quantity p + q)\<rparr>
          else p\<lparr>quantity := quantity p + q\<rparr>)"
  by (simp add: Position_update_def Let_def)

lemma Position_update_SELL:
  "Position_update ''SELL'' q pr p =
     Inr (if quantity p - q \<le> 0
          then p\<lparr>quantity := 0, avg_price := 0, stop_loss := None, take_profit := None\<rparr>
          else p\<lparr>quantity := quantity p - q\<rparr>)"
  by (simp add: Position_update_def Let_def)

lemmas process_order_unfold =
  process_order_def store_def Let_def Position_update_BUY Position_update_SELL

lemmas ledger_defs =
  process_order_def settle_order_def Position_update_def store_def log_trade_def
  new_Position_def Let_def

text \<open>
  What does hold on every raising path: no row is appended to the log, and an entry that
  was in the dictionary before a call rejected for its quantity, its price, its side or
  for lack of funds or of lots is the same after it, as is the cash.
\<close>

lemma process_order_raise_keeps_log:
  "fst (process_order ord t) = Some e \<Longrightarrow> trades_log (snd (process_order ord t)) = trades_log t"
  by (auto simp: process_order_unfold dest: settle_order_raise split: if_splits)

lemma process_order_early_raise_keeps_cash:
  "fst (process_order ord t) = Some e \<Longrightarrow> e \<noteq> StopNotBelowTake
     \<Longrightarrow> cash (snd (process_order ord t)) = cash t"
  by (auto simp: process_order_unfold dest: settle_order_raise split: if_splits)

lemma process_order_early_raise_keeps_entries:
  "fst (process_order ord t) = Some e \<Longrightarrow> e \<noteq> StopNotBelowTake \<Longrightarrow> positions t k = Some p
     \<Longrightarrow> positions (snd (process_order ord t)) k = Some p"
  by (auto simp: process_order_unfold dest: settle_order_raise split: if_splits)

text \<open>
  Claim C1 says that a call of \<open>process_order\<close> that raises leaves the cash and the
  positions as they were. The source checks the order's stop-loss against its take-profit
  only after it has taken the cost from the cash and updated the position: a trader with
  cash 1000 and no position, given a BUY of 5 at 100 with stop-loss 110 and take-profit
  100, raises with cash 500 and a position of 5 lots, and no log row.
\<close>

theorem process_order_raises_after_mutation:
  "process_order
     \<lparr>order_symbol = ''SBER'', order_side = ''BUY'', order_quantity = 5, order_price = 100,
      order_stop_loss = Some 110, order_take_profit = Some 100, order_timestamp = 0\<rparr>
     \<lparr>cash = 1000, positions = Map.empty, trades_log = []\<rparr>
   = (Some StopNotBelowTake,
      \<lparr>cash = 500,
       positions = [''SBER'' \<mapsto> \<lparr>symbol = ''SBER'', quantity = 5, avg_price = 100,
                                stop_loss = None, take_profit = None\<rparr>],
       trades_log = []\<rparr>)"
  by (simp add: ledger_defs)

text \<open>
  Claim C3 says that no entry of quantity zero is ever left in the dictionary of positions,
  also after a call that raises. \<open>setdefault\<close> stores a fresh position before the checks
  of funds, of lots and of the side, and only the path that returns removes an emptied
  entry: a SELL of 1 at 100 on a trader that holds nothing raises and leaves a position of
  quantity 0 under the symbol.
\<close>

theorem rejected_order_leaves_empty_position:
  "process_order
     \<lparr>order_symbol = ''SBER'', order_side = ''SELL'', order_quantity = 1, order_price = 100,
      order_stop_loss = None, order_take_profit = None, order_timestamp = 0\<rparr>
     \<lparr>cash = 1000, positions = Map.empty, trades_log = []\<rparr>
   = (Some InsufficientPosition,
      \<lparr>cash = 1000,
       positions = [''SBER'' \<mapsto> \<lparr>symbol = ''SBER'', quantity = 0, avg_price = 0,
                                stop_loss = None, take_profit = None\<rparr>],
       trades_log = []\<rparr>)"
  by (simp add: ledger_defs)

text \<open>
  On the path that returns, the removal works: when every entry has a positive quantity
  before the call, every entry has one after it.
\<close>

lemma settle_order_positions:
  "fst (settle_order ord p t) = None \<Longrightarrow> positions (snd (settle_order ord p t)) k = Some q \<Longrightarrow>
     (k = order_symbol ord \<and> quantity q = quantity p \<and> quantity p \<noteq> 0 \<and> avg_price q = avg_price p)
     \<or> (k \<noteq> order_symbol ord \<and> positions t k = Some q)"
  by (auto simp: settle_order_def store_def log_trade_def Let_def
           split: if_splits option.splits)

lemma process_order_returns_open_positions:
  assumes ok: "fst (process_order ord t) = None"
    and inv: "\<And>k q. positions t k = Some q \<Longrightarrow> 0 < quantity q"
    and k: "positions (snd (process_order ord t)) k = Some q"
  shows "0 < quantity q"
proof -
  let ?old = "case positions t (order_symbol ord) of Some p \<Rightarrow> p
              | None \<Rightarrow> new_Position (order_symbol ord)"
  have old: "0 \<le> quantity ?old"
    using inv by (auto simp: new_Position_def split: option.splits dest: less_imp_le)
  have valid: "0 < order_quantity ord"
    using ok by (simp add: process_order_def split: if_splits)
  show ?thesis
  proof (cases "order_side ord = ''BUY''")
    case True
    with ok obtain t2 p where
      s: "process_order ord t = settle_order ord p t2"
      and p: "quantity p = quantity ?old + order_quantity ord"
      and t2: "\<And>j. j \<noteq> order_symbol ord \<Longrightarrow> positions t2 j = positions t j"
      using old valid
      by (auto simp: process_order_unfold split: if_splits)
    from settle_order_positions [of ord p t2 k q] ok k s
    show ?thesis using p old valid t2 inv by auto
  next
    case False
    with ok have sell: "order_side ord = ''SELL''"
      by (simp add: process_order_unfold split: if_splits)
    with ok False obtain t2 p where
      s: "process_order ord t = settle_order ord p t2"
      and p: "0 \<le> quantity p"
      and t2: "\<And>j. j \<noteq> order_symbol ord \<Longrightarrow> positions t2 j = positions t j"
      by (auto simp: process_order_unfold split: if_splits)
    from settle_order_positions [of ord p t2 k q] ok k s
    show ?thesis using p t2 inv by auto
  qed
qed



text \<open>
  Claim C5: \<open>check_stop_take\<close> leaves the trader as it is. It returns no order when the
  symbol has no open position, that is, no entry or an entry of quantity zero. For an entry
  with a quantity other than zero the stop-loss is looked
  at first: when it is set and the current price is at or below it, the result is a SELL
  order for the whole quantity at the current price that carries the stop-loss (and no
  take-profit); otherwise, when the take-profit is set and the current price is at or above
  it, the result is the same order carrying the take-profit (and no stop-loss); otherwise
  there is no order.
\<close>

theorem check_stop_take_spec:
  "snd (check_stop_take s current_price now t) = t
   \<and> (positions t s = None \<longrightarrow> fst (check_stop_take s current_price now t) = None)
   \<and> (positions t s = Some p \<and> quantity p = 0 \<longrightarrow>
        fst (check_stop_take s current_price now t) = None)
   \<and> (positions t s = Some p \<and> quantity p \<noteq> 0 \<and> stop_loss p = Some sl \<and> current_price \<le> sl
        \<longrightarrow> fst (check_stop_take s current_price now t) =
              Some \<lparr>order_symbol = s, order_side = ''SELL'', order_quantity = quantity p,
                    order_price = current_price, order_stop_loss = Some sl,
                    order_take_profit = None, order_timestamp = now\<rparr>)
   \<and> (positions t s = Some p \<and> quantity p \<noteq> 0
        \<and> (stop_loss p = None \<or> (\<exists>l. stop_loss p = Some l \<and> l < current_price))
        \<and> take_profit p = Some tp \<and> tp \<le> current_price
        \<longrightarrow> fst (check_stop_take s current_price now t) =
              Some \<lparr>order_symbol = s, order_side = ''SELL'', order_quantity = quantity p,
                    order_price = current_price, order_stop_loss = None,
                    order_take_profit = Some tp, order_timestamp = now\<rparr>)
   \<and> (positions t s = Some p \<and> quantity p \<noteq> 0
        \<and> (stop_loss p = None \<or> (\<exists>l. stop_loss p = Some l \<and> l < current_price))
        \<and> (take_profit p = None \<or> (\<exists>l. take_profit p = Some l \<and> current_price < l))
        \<longrightarrow> fst (check_stop_take s current_price now t) = None)"
  by (auto simp: check_stop_take_def split: option.splits)

theorem check_stop_take_spec_witness:
  "fst (check_stop_take ''SBER'' 94 7
         \<lparr>cash = 500,
          positions = [''SBER'' \<mapsto> \<lparr>symbol = ''SBER'', quantity = 5, avg_price = 100,
                                   stop_loss = Some 95, take_profit = Some 110\<rparr>],
          trades_log = []\<rparr>)
     = Some \<lparr>order_symbol = ''SBER'', order_side = ''SELL'', order_quantity = 5,
             order_price = 94, order_stop_loss = Some 95, order_take_profit = None,
             order_timestamp = 7\<rparr>
   \<and> fst (check_stop_take ''SBER'' 111 7
         \<lparr>cash = 500,
          positions = [''SBER'' \<mapsto> \<lparr>symbol = ''SBER'', quantity = 5, avg_price = 100,
                                   stop_loss = Some 95, take_profit = Some 110\<rparr>],
          trades_log = []\<rparr>)
     = Some \<lparr>order_symbol = ''SBER'', order_side = ''SELL'', order_quantity = 5,
             order_price = 111, order_stop_loss = None, order_take_profit = Some 110,
             order_timestamp = 7\<rparr>
   \<and> fst (check_stop_take ''SBER'' 100 7
         \<lparr>cash = 500,
          positions = [''SBER'' \<mapsto> \<lparr>symbol = ''SBER'', quantity = 5, avg_price = 100,
                                   stop_loss = Some 95, take_profit = Some 110\<rparr>],
          trades_log = []\<rparr>) = None
   \<and> fst (check_stop_take ''GAZP'' 100 7
         \<lparr>cash = 500,
          positions = [''SBER'' \<mapsto> \<lparr>symbol = ''SBER'', quantity = 5, avg_price = 100,
                                   stop_loss = Some 95, take_profit = Some 110\<rparr>],
          trades_log = []\<rparr>) = None
   \<and> fst (check_stop_take ''LKOH'' 90 7
         \<lparr>cash = 500,
          positions = [''LKOH'' \<mapsto> \<lparr>symbol = ''LKOH'', quantity = 0, avg_price = 0,
                                   stop_loss = Some 95, take_profit = None\<rparr>],
          trades_log = []\<rparr>) = None"
proof -
  let ?p = "\<lparr>symbol = ''SBER'', quantity = 5, avg_price = 100,
             stop_loss = Some 95, take_profit = Some 110\<rparr>"
  let ?t = "\<lparr>cash = 500, positions = [''SBER'' \<mapsto> ?p], trades_log = []\<rparr>"
  have h0: "positions ?t ''GAZP'' = None"
    by simp
  have h1: "positions ?t ''SBER'' = Some ?p \<and> quantity ?p \<noteq> 0 \<and> stop_loss ?p = Some 95
              \<and> (94::real) \<le> 95"
    by simp
  have h2: "positions ?t ''SBER'' = Some ?p \<and> quantity ?p \<noteq> 0
        \<and> (stop_loss ?p = None \<or> (\<exists>l. stop_loss ?p = Some l \<and> l < 111))
        \<and> take_profit ?p = Some 110 \<and> (110::real) \<le> 111"
    by simp
  have h3: "positions ?t ''SBER'' = Some ?p \<and> quantity ?p \<noteq> 0
        \<and> (stop_loss ?p = None \<or> (\<exists>l. stop_loss ?p = Some l \<and> l < 100))
        \<and> (take_profit ?p = None \<or> (\<exists>l. take_profit ?p = Some l \<and> 100 < l))"
    by simp
  let ?q = "\<lparr>symbol = ''LKOH'', quantity = 0, avg_price = 0,
             stop_loss = Some 95, take_profit = None\<rparr>"
  let ?u = "\<lparr>cash = 500, positions = [''LKOH'' \<mapsto> ?q], trades_log = []\<rparr>"
  have h4: "positions ?u ''LKOH'' = Some ?q \<and> quantity ?q = 0"
    by simp
  note a = check_stop_take_spec [of "''SBER''" 94 7 ?t ?p 95 0,
      THEN conjunct2, THEN conjunct2, THEN conjunct2, THEN conjunct1, rule_format, OF h1]
  note b = check_stop_take_spec [of "''SBER''" 111 7 ?t ?p 0 110,
      THEN conjunct2, THEN conjunct2, THEN conjunct2, THEN conjunct2, THEN conjunct1,
      rule_format, OF h2]
  note c = check_stop_take_spec [of "''SBER''" 100 7 ?t ?p 0 0,
      THEN conjunct2, THEN conjunct2, THEN conjunct2, THEN conjunct2, THEN conjunct2,
      rule_format, OF h3]
  note d = check_stop_take_spec [of "''GAZP''" 100 7 ?t ?p 0 0,
      THEN conjunct2, THEN conjunct1, rule_format, OF h0]
  note e = check_stop_take_spec [of "''LKOH''" 90 7 ?u ?q 0 0,
      THEN conjunct2, THEN conjunct2, THEN conjunct1, rule_format, OF h4]
  show ?thesis
    using a b c d e by simp
qed

text \<open>
  Claim C10: an entry of quantity zero, however it came to be in the dictionary, gives no
  exit order at any price.
\<close>

theorem check_stop_take_zero_quantity:
  "positions t s = Some p \<Longrightarrow> quantity p = 0 \<Longrightarrow>
     fst (check_stop_take s current_price now t) = None"
  by (simp add: check_stop_take_def)

theorem check_stop_take_zero_quantity_witness:
  "fst (check_stop_take ''SBER'' 90 3
         \<lparr>cash = 1000,
          positions = [''SBER'' \<mapsto> \<lparr>symbol = ''SBER'', quantity = 0, avg_price = 0,
                                   stop_loss = Some 95, take_profit = None\<rparr>],
          trades_log = []\<rparr>) = None"
proof -
  let ?p = "\<lparr>symbol = ''SBER'', quantity = 0, avg_price = 0,
             stop_loss = Some 95, take_profit = None\<rparr>"
  let ?t = "\<lparr>cash = 1000, positions = [''SBER'' \<mapsto> ?p], trades_log = []\<rparr>"
  have h1: "positions ?t ''SBER'' = Some ?p" by simp
  have h2: "quantity ?p = 0" by simp
  show ?thesis
    by (rule check_stop_take_zero_quantity [OF h1 h2])
qed

section \<open>Properties of the ledger on Python floats\<close>

lemma fl_nonneg: "format_ok f \<Longrightarrow> 0 \<le> x \<Longrightarrow> fle (Fin 0) (fl f x)"
proof -
  assume ok: "format_ok f" and x: "0 \<le> x"
  from ok have m: "mono (rnd f)" and z: "rnd f 0 = 0" and b: "0 \<le> fmax f"
    by (simp_all add: format_ok_def)
  from m x have "rnd f 0 \<le> rnd f x"
    by (rule monoD)
  with z have "0 \<le> rnd f x"
    by simp
  with b show ?thesis
    by (simp add: fl_def Let_def)
qed

lemma fl_not_NaN: "fl f x \<noteq> NaN"
  by (simp add: fl_def Let_def)

lemma fmul_of_valid:
  "format_ok f \<Longrightarrow> \<not> fle q (Fin 0) \<Longrightarrow> \<not> fle p (Fin 0) \<Longrightarrow> not_negative (fmul f q p)"
  by (cases q; cases p) (auto simp: not_negative_def intro: fl_nonneg)

lemma fmul_of_valid_not_NaN:
  "format_ok f \<Longrightarrow> \<not> fle q (Fin 0) \<Longrightarrow> \<not> fle p (Fin 0) \<Longrightarrow> q \<noteq> NaN \<Longrightarrow> p \<noteq> NaN
     \<Longrightarrow> fle (Fin 0) (fmul f q p)"
  by (cases q; cases p) (auto intro: fl_nonneg)

lemma fadd_not_negative:
  "format_ok f \<Longrightarrow> not_negative a \<Longrightarrow> not_negative b \<Longrightarrow> not_negative (fadd f a b)"
  by (cases a; cases b) (auto simp: not_negative_def intro: fl_nonneg)

lemma fsub_not_negative:
  "format_ok f \<Longrightarrow> not_negative b \<Longrightarrow> \<not> flt a b \<Longrightarrow> not_negative (fsub f a b)"
  by (cases a; cases b) (auto simp: not_negative_def fsub_def intro: fl_nonneg)

lemma fadd_Fin_nonneg:
  "format_ok f \<Longrightarrow> 0 \<le> c \<Longrightarrow> fle (Fin 0) b \<Longrightarrow> fle (Fin 0) (fadd f (Fin c) b)"
  by (cases b) (auto intro: fl_nonneg)

lemma fsub_Fin_nonneg:
  "format_ok f \<Longrightarrow> fle (Fin 0) b \<Longrightarrow> \<not> flt (Fin c) b \<Longrightarrow> fle (Fin 0) (fsub f (Fin c) b)"
  by (cases b) (auto simp: fsub_def intro: fl_nonneg)

lemma settle_order_fl_cash: "fl_cash (snd (settle_order_fl ord p t)) = fl_cash t"
  by (simp add: settle_order_fl_def store_fl_def log_trade_fl_def Let_def)

lemma settle_order_fl_raise:
  "fst (settle_order_fl ord p t) = Some e \<Longrightarrow> e = LedgerValueError StopNotBelowTake"
  by (simp add: settle_order_fl_def Let_def split: if_splits)

lemma after_update_fl_cash:
  "fl_cash (snd (case x of Inl e \<Rightarrow> (Some e, t)
                 | Inr p \<Rightarrow> settle_order_fl ord p (store_fl k p t))) = fl_cash t"
  by (cases x) (simp_all add: settle_order_fl_cash store_fl_def)

text \<open>The cash after a call, in terms of the cash before it.\<close>

lemma process_order_fl_cash:
  "fl_cash (snd (process_order_fl f ord t)) =
     (if fle (fl_order_quantity ord) (Fin 0) \<or> fle (fl_order_price ord) (Fin 0) then fl_cash t
      else if fl_order_side ord = ''BUY'' then
        (if flt (fl_cash t) (fmul f (fl_order_quantity ord) (fl_order_price ord)) then fl_cash t
         else fsub f (fl_cash t) (fmul f (fl_order_quantity ord) (fl_order_price ord)))
      else if fl_order_side ord = ''SELL'' then
        (if flt (fl_quantity (case fl_positions t (fl_order_symbol ord) of
                                Some p \<Rightarrow> p
                              | None \<Rightarrow> new_Position_fl (fl_order_symbol ord)))
                (fl_order_quantity ord)
         then fl_cash t
         else fadd f (fl_cash t) (fmul f (fl_order_quantity ord) (fl_order_price ord)))
      else fl_cash t)"
  by (simp add: process_order_fl_def Let_def after_update_fl_cash store_fl_def)

lemma process_order_fl_accepted:
  "fst (process_order_fl f ord t) = None \<Longrightarrow>
     \<not> fle (fl_order_quantity ord) (Fin 0) \<and> \<not> fle (fl_order_price ord) (Fin 0)
     \<and> (fl_order_side ord = ''BUY'' \<or> fl_order_side ord = ''SELL'')
     \<and> (fl_order_side ord = ''BUY'' \<longrightarrow>
          \<not> flt (fl_cash t) (fmul f (fl_order_quantity ord) (fl_order_price ord)))
     \<and> (fl_order_side ord = ''SELL'' \<longrightarrow>
          \<not> flt (fl_quantity (case fl_positions t (fl_order_symbol ord) of
                                  Some p \<Rightarrow> p
                                | None \<Rightarrow> new_Position_fl (fl_order_symbol ord)))
                  (fl_order_quantity ord))"
  by (auto simp: process_order_fl_def Let_def store_fl_def split: if_splits)

lemma process_order_fl_cash_step:
  assumes ok: "format_ok f" and inv: "not_negative (fl_cash t)"
  shows "not_negative (fl_cash (snd (process_order_fl f ord t)))"
proof (cases "fle (fl_order_quantity ord) (Fin 0) \<or> fle (fl_order_price ord) (Fin 0)")
  case True
  then show ?thesis using inv by (simp add: process_order_fl_cash)
next
  case False
  then have cost: "not_negative (fmul f (fl_order_quantity ord) (fl_order_price ord))"
    using ok by (simp add: fmul_of_valid)
  show ?thesis
    using False inv cost ok
    by (simp add: process_order_fl_cash fadd_not_negative fsub_not_negative)
qed

lemma process_orders_fl_cash:
  "format_ok f \<Longrightarrow> not_negative (fl_cash t) \<Longrightarrow> not_negative (fl_cash (process_orders_fl f ords t))"
  by (induction ords arbitrary: t) (simp_all add: process_order_fl_cash_step)

lemma process_order_fl_cash_finite:
  assumes ok: "format_ok f" and c: "fl_cash t = Fin c" "0 \<le> c"
    and q: "fl_order_quantity ord \<noteq> NaN" and p: "fl_order_price ord \<noteq> NaN"
  shows "fle (Fin 0) (fl_cash (snd (process_order_fl f ord t)))"
proof (cases "fle (fl_order_quantity ord) (Fin 0) \<or> fle (fl_order_price ord) (Fin 0)")
  case True
  then show ?thesis using c by (simp add: process_order_fl_cash)
next
  case False
  then have cost: "fle (Fin 0) (fmul f (fl_order_quantity ord) (fl_order_price ord))"
    using ok q p by (simp add: fmul_of_valid_not_NaN)
  show ?thesis
    using False c cost ok
    by (simp add: process_order_fl_cash fadd_Fin_nonneg fsub_Fin_nonneg)
qed

text \<open>
  Claim C2 says that the cash is at least zero after every call. On floats the guard of a
  BUY, \<open>cost > self.cash\<close>, is also false when both are infinite, and \<open>inf - inf\<close> is
  NaN, for which \<open>cash >= 0\<close> is false. A trader constructed with cash 1000 accepts BUY 5
  at 100 (cash 500), SELL 5 at \<open>2 ^ 1023\<close> (the proceeds overflow, cash \<open>inf\<close>) and BUY
  \<open>2 ^ 1023\<close> at 4 (cost \<open>inf\<close>), and is left with cash NaN; each of the three calls
  writes its log row. All operands are powers of two or small integers, so no result of
  this run is rounded.
\<close>

theorem cash_becomes_nan:
  "PaperTrader_init_fl (Fin 1000) None
     = Inr \<lparr>fl_cash = Fin 1000, fl_positions = Map.empty, fl_trades_log = []\<rparr>
   \<and> fl_cash (process_orders_fl binary64_exact
         [\<lparr>fl_order_symbol = ''SBER'', fl_order_side = ''BUY'', fl_order_quantity = Fin 5,
           fl_order_price = Fin 100, fl_order_stop_loss = None, fl_order_take_profit = None,
           fl_order_timestamp = 0\<rparr>]
         \<lparr>fl_cash = Fin 1000, fl_positions = Map.empty, fl_trades_log = []\<rparr>) = Fin 500
   \<and> fl_cash (process_orders_fl binary64_exact
         [\<lparr>fl_order_symbol = ''SBER'', fl_order_side = ''BUY'', fl_order_quantity = Fin 5,
           fl_order_price = Fin 100, fl_order_stop_loss = None, fl_order_take_profit = None,
           fl_order_timestamp = 0\<rparr>,
          \<lparr>fl_order_symbol = ''SBER'', fl_order_side = ''SELL'', fl_order_quantity = Fin 5,
           fl_order_price = Fin (2 ^ 1023), fl_order_stop_loss = None,
           fl_order_take_profit = None, fl_order_timestamp = 1\<rparr>]
         \<lparr>fl_cash = Fin 1000, fl_positions = Map.empty, fl_trades_log = []\<rparr>) = PInf
   \<and> fl_cash (process_orders_fl binary64_exact
         [\<lparr>fl_order_symbol = ''SBER'', fl_order_side = ''BUY'', fl_order_quantity = Fin 5,
           fl_order_price = Fin 100, fl_order_stop_loss = None, fl_order_take_profit = None,
           fl_order_timestamp = 0\<rparr>,
          \<lparr>fl_order_symbol = ''SBER'', fl_order_side = ''SELL'', fl_order_quantity = Fin 5,
           fl_order_price = Fin (2 ^ 1023), fl_order_stop_loss = None,
           fl_order_take_profit = None, fl_order_timestamp = 1\<rparr>,
          \<lparr>fl_order_symbol = ''SBER'', fl_order_side = ''BUY'',
           fl_order_quantity = Fin (2 ^ 1023), fl_order_price = Fin 4,
           fl_order_stop_loss = None, fl_order_take_profit = None,
           fl_order_timestamp = 2\<rparr>]
         \<lparr>fl_cash = Fin 1000, fl_positions = Map.empty, fl_trades_log = []\<rparr>) = NaN
   \<and> length (fl_trades_log (process_orders_fl binary64_exact
         [\<lparr>fl_order_symbol = ''SBER'', fl_order_side = ''BUY'', fl_order_quantity = Fin 5,
           fl_order_price = Fin 100, fl_order_stop_loss = None, fl_order_take_profit = None,
           fl_order_timestamp = 0\<rparr>,
          \<lparr>fl_order_symbol = ''SBER'', fl_order_side = ''SELL'', fl_order_quantity = Fin 5,
           fl_order_price = Fin (2 ^ 1023), fl_order_stop_loss = None,
           fl_order_take_profit = None, fl_order_timestamp = 1\<rparr>,
          \<lparr>fl_order_symbol = ''SBER'', fl_order_side = ''BUY'',
           fl_order_quantity = Fin (2 ^ 1023), fl_order_price = Fin 4,
           fl_order_stop_loss = None, fl_order_take_profit = None,
           fl_order_timestamp = 2\<rparr>]
         \<lparr>fl_cash = Fin 1000, fl_positions = Map.empty, fl_trades_log = []\<rparr>)) = 3
   \<and> \<not> fle (Fin 0) NaN"
  by (simp add: PaperTrader_init_fl_def process_order_fl_def settle_order_fl_def
        Position_update_fl_def store_fl_def log_trade_fl_def new_Position_fl_def Let_def
        binary64_exact_def fl_def fsub_def feq_def)

text \<open>
  Claim C2 as the source has it, for any rounding that is monotone and keeps zero. A
  trader constructed with an initial cash above zero has, after every call of any sequence
  of \<open>process_order\<close> calls, returning or raising, a cash that is not below zero: it is at
  least zero, or NaN. A call that starts from a finite cash of at least zero with an order
  whose quantity and price are not NaN leaves a cash of at least zero. A BUY is accepted
  only when \<open>cost > cash\<close> is false, and then the cash is the old cash minus the cost; a
  SELL that is accepted adds the proceeds, which are not below zero.
\<close>

theorem cash_not_negative:
  assumes "format_ok f"
  shows "(flt (Fin 0) initial_cash \<longrightarrow>
      (\<exists>t. PaperTrader_init_fl initial_cash file = Inr t \<and> fl_cash t = initial_cash
         \<and> (\<forall>k. not_negative (fl_cash (process_orders_fl f (take k ords) t)))))
   \<and> (fl_cash u = Fin c \<and> 0 \<le> c \<and> fl_order_quantity ord \<noteq> NaN \<and> fl_order_price ord \<noteq> NaN
        \<longrightarrow> fle (Fin 0) (fl_cash (snd (process_order_fl f ord u))))
   \<and> (fl_order_side ord = ''BUY'' \<and> fst (process_order_fl f ord u) = None \<longrightarrow>
        \<not> flt (fl_cash u) (fmul f (fl_order_quantity ord) (fl_order_price ord))
        \<and> fl_cash (snd (process_order_fl f ord u))
            = fsub f (fl_cash u) (fmul f (fl_order_quantity ord) (fl_order_price ord)))
   \<and> (fl_order_side ord = ''SELL'' \<and> fst (process_order_fl f ord u) = None \<longrightarrow>
        not_negative (fmul f (fl_order_quantity ord) (fl_order_price ord))
        \<and> fl_cash (snd (process_order_fl f ord u))
            = fadd f (fl_cash u) (fmul f (fl_order_quantity ord) (fl_order_price ord)))"
proof (intro conjI impI)
  assume pos: "flt (Fin 0) initial_cash"
  define t where "t = \<lparr>fl_cash = initial_cash, fl_positions = Map.empty,
    fl_trades_log = (case file of None \<Rightarrow> [] | Some rows \<Rightarrow> rows)\<rparr>"
  from pos have nle: "\<not> fle initial_cash (Fin 0)"
    by (cases initial_cash) simp_all
  from pos have nn: "not_negative initial_cash"
    by (cases initial_cash) (simp_all add: not_negative_def)
  have init: "PaperTrader_init_fl initial_cash file = Inr t"
    using nle by (simp add: PaperTrader_init_fl_def t_def)
  have c: "fl_cash t = initial_cash"
    by (simp add: t_def)
  have "not_negative (fl_cash (process_orders_fl f (take k ords) t))" for k
    using assms nn c by (intro process_orders_fl_cash) simp_all
  with init c
  show "\<exists>t. PaperTrader_init_fl initial_cash file = Inr t \<and> fl_cash t = initial_cash
         \<and> (\<forall>k. not_negative (fl_cash (process_orders_fl f (take k ords) t)))"
    by blast
next
  assume "fl_cash u = Fin c \<and> 0 \<le> c \<and> fl_order_quantity ord \<noteq> NaN \<and> fl_order_price ord \<noteq> NaN"
  then show "fle (Fin 0) (fl_cash (snd (process_order_fl f ord u)))"
    using assms by (intro process_order_fl_cash_finite [of f u c]) simp_all
next
  assume a: "fl_order_side ord = ''BUY'' \<and> fst (process_order_fl f ord u) = None"
  with process_order_fl_accepted [of f ord u]
  show "\<not> flt (fl_cash u) (fmul f (fl_order_quantity ord) (fl_order_price ord))"
    by simp
next
  assume a: "fl_order_side ord = ''BUY'' \<and> fst (process_order_fl f ord u) = None"
  with process_order_fl_accepted [of f ord u]
  show "fl_cash (snd (process_order_fl f ord u))
            = fsub f (fl_cash u) (fmul f (fl_order_quantity ord) (fl_order_price ord))"
    by (simp add: process_order_fl_cash)
next
  assume a: "fl_order_side ord = ''SELL'' \<and> fst (process_order_fl f ord u) = None"
  with process_order_fl_accepted [of f ord u] assms
  show "not_negative (fmul f (fl_order_quantity ord) (fl_order_price ord))"
    by (simp add: fmul_of_valid)
next
  assume a: "fl_order_side ord = ''SELL'' \<and> fst (process_order_fl f ord u) = None"
  with process_order_fl_accepted [of f ord u]
  show "fl_cash (snd (process_order_fl f ord u))
            = fadd f (fl_cash u) (fmul f (fl_order_quantity ord) (fl_order_price ord))"
    by (simp add: process_order_fl_cash)
qed

theorem cash_not_negative_witness:
  "format_ok binary64_exact
   \<and> (\<exists>t. PaperTrader_init_fl (Fin 1000) None = Inr t \<and> fl_cash t = Fin 1000
        \<and> (\<forall>k. not_negative (fl_cash (process_orders_fl binary64_exact
               (take k [\<lparr>fl_order_symbol = ''SBER'', fl_order_side = ''BUY'',
                         fl_order_quantity = Fin 5, fl_order_price = Fin 100,
                         fl_order_stop_loss = None, fl_order_take_profit = None,
                         fl_order_timestamp = 0\<rparr>,
                        \<lparr>fl_order_symbol = ''SBER'', fl_order_side = ''SELL'',
                         fl_order_quantity = Fin 5, fl_order_price = Fin 80,
                         fl_order_stop_loss = None, fl_order_take_profit = None,
                         fl_order_timestamp = 1\<rparr>]) t))))
   \<and> fle (Fin 0) (fl_cash (snd (process_order_fl binary64_exact
        \<lparr>fl_order_symbol = ''SBER'', fl_order_side = ''SELL'', fl_order_quantity = Fin 5,
         fl_order_price = Fin 80, fl_order_stop_loss = None, fl_order_take_profit = None,
         fl_order_timestamp = 1\<rparr>
        \<lparr>fl_cash = Fin 500,
         fl_positions = [''SBER'' \<mapsto> \<lparr>fl_symbol = ''SBER'', fl_quantity = Fin 5,
                                      fl_avg_price = Fin 100, fl_stop_loss = None,
                                      fl_take_profit = None\<rparr>],
         fl_trades_log = []\<rparr>)))
   \<and> fl_cash (snd (process_order_fl binary64_exact
        \<lparr>fl_order_symbol = ''SBER'', fl_order_side = ''BUY'', fl_order_quantity = Fin 5,
         fl_order_price = Fin 100, fl_order_stop_loss = None, fl_order_take_profit = None,
         fl_order_timestamp = 0\<rparr>
        \<lparr>fl_cash = Fin 1000, fl_positions = Map.empty, fl_trades_log = []\<rparr>)) = Fin 500
   \<and> fl_cash (snd (process_order_fl binary64_exact
        \<lparr>fl_order_symbol = ''SBER'', fl_order_side = ''SELL'', fl_order_quantity = Fin 5,
         fl_order_price = Fin 80, fl_order_stop_loss = None, fl_order_take_profit = None,
         fl_order_timestamp = 1\<rparr>
        \<lparr>fl_cash = Fin 500,
         fl_positions = [''SBER'' \<mapsto> \<lparr>fl_symbol = ''SBER'', fl_quantity = Fin 5,
                                      fl_avg_price = Fin 100, fl_stop_loss = None,
                                      fl_take_profit = None\<rparr>],
         fl_trades_log = []\<rparr>)) = Fin 900"
proof -
  let ?buy = "\<lparr>fl_order_symbol = ''SBER'', fl_order_side = ''BUY'', fl_order_quantity = Fin 5,
         fl_order_price = Fin 100, fl_order_stop_loss = None, fl_order_take_profit = None,
         fl_order_timestamp = 0\<rparr>"
  let ?sell = "\<lparr>fl_order_symbol = ''SBER'', fl_order_side = ''SELL'', fl_order_quantity = Fin 5,
         fl_order_price = Fin 80, fl_order_stop_loss = None, fl_order_take_profit = None,
         fl_order_timestamp = 1\<rparr>"
  let ?fresh = "\<lparr>fl_cash = Fin 1000, fl_positions = Map.empty, fl_trades_log = []\<rparr>"
  let ?holding = "\<lparr>fl_cash = Fin 500,
         fl_positions = [''SBER'' \<mapsto> \<lparr>fl_symbol = ''SBER'', fl_quantity = Fin 5,
                                      fl_avg_price = Fin 100, fl_stop_loss = None,
                                      fl_take_profit = None\<rparr>],
         fl_trades_log = []\<rparr>"
  note run = process_order_fl_def settle_order_fl_def Position_update_fl_def store_fl_def
    log_trade_fl_def new_Position_fl_def Let_def binary64_exact_def fl_def fsub_def feq_def
  have ok: "format_ok binary64_exact"
    by (simp add: format_ok_def binary64_exact_def mono_def)
  have h1: "flt (Fin 0) (Fin 1000)"
    by simp
  have h2: "fl_cash ?holding = Fin 500 \<and> (0::real) \<le> 500 \<and> fl_order_quantity ?sell \<noteq> NaN
              \<and> fl_order_price ?sell \<noteq> NaN"
    by simp
  have h3: "fl_order_side ?buy = ''BUY'' \<and> fst (process_order_fl binary64_exact ?buy ?fresh) = None"
    by (simp add: run)
  have h4: "fl_order_side ?sell = ''SELL''
              \<and> fst (process_order_fl binary64_exact ?sell ?holding) = None"
    by (simp add: run)
  note a = cash_not_negative [OF ok, of "Fin 1000" None _ ?holding 500 ?sell,
      THEN conjunct1, rule_format, OF h1]
  note b = cash_not_negative [OF ok, of "Fin 1000" None "[]" ?holding 500 ?sell,
      THEN conjunct2, THEN conjunct1, rule_format, OF h2]
  note c = cash_not_negative [OF ok, of "Fin 1000" None "[]" ?fresh 1000 ?buy,
      THEN conjunct2, THEN conjunct2, THEN conjunct1, rule_format, OF h3, THEN conjunct2]
  note d = cash_not_negative [OF ok, of "Fin 1000" None "[]" ?holding 500 ?sell,
      THEN conjunct2, THEN conjunct2, THEN conjunct2, rule_format, OF h4, THEN conjunct2]
  have c': "fl_cash (snd (process_order_fl binary64_exact ?buy ?fresh)) = Fin 500"
    using c by (simp add: binary64_exact_def fl_def fsub_def)
  have d': "fl_cash (snd (process_order_fl binary64_exact ?sell ?holding)) = Fin 900"
    using d by (simp add: binary64_exact_def fl_def)
  show ?thesis
    by (intro conjI) (rule ok, rule a, rule b, rule c', rule d')
qed

section \<open>Properties of the report\<close>

text \<open>
  Claim C9: a trader constructed with cash 1000 (and no log file yet) accepts BUY 5 at 100,
  which leaves cash 500, and then SELL 5 at 80, which leaves cash 900. The cash series read
  back from its log with initial cash 1000 is 1000, 500, 900, and the report has final
  balance 900, P and L -100, return -10 percent and maximum drawdown 50 percent (the drop
  from the running peak 1000 to 500).
\<close>

theorem loss_scenario_report:
  "\<exists>t0 t1 t2.
     PaperTrader_init 1000 None = Inr t0
     \<and> process_order
          \<lparr>order_symbol = ''SBER'', order_side = ''BUY'', order_quantity = 5, order_price = 100,
           order_stop_loss = None, order_take_profit = None, order_timestamp = 0\<rparr> t0
         = (None, t1)
     \<and> cash t1 = 500
     \<and> process_order
          \<lparr>order_symbol = ''SBER'', order_side = ''SELL'', order_quantity = 5, order_price = 80,
           order_stop_loss = None, order_take_profit = None, order_timestamp = 1\<rparr> t1
         = (None, t2)
     \<and> cash t2 = 900
     \<and> read_cash_series (Some (trades_log t2)) 1000 = [1000, 500, 900]
     \<and> generate_report 1000 (Some (trades_log t2))
         = Inr \<lparr>final_balance = 900, pnl = - 100, return_pct = - 10, max_drawdown_pct = 50\<rparr>"
  by (simp add: PaperTrader_init_def ledger_defs read_cash_series_def generate_report_def
        calculate_max_drawdown_def)

section \<open>Properties of the market-data client\<close>





lemma dispatch_callback_eq:
  "dispatch_callback cb payload w =
     (fst (callback_fun cb (callback_state w) payload),
      w\<lparr>callback_state := snd (callback_fun cb (callback_state w) payload),
        dispatched := dispatched w @ [payload]\<rparr>)"
  by (cases cb) (simp_all add: dispatch_callback_def split: prod.splits)

lemma recv_loop_delivers:
  "map (parse_ws_message lib) raws = map Inr payloads \<Longrightarrow>
   accepts (callback_fun cb) payloads (callback_state w) = Some s1 \<Longrightarrow>
   raws \<noteq> [] \<Longrightarrow> received + int (length raws) = m \<Longrightarrow>
   recv_loop lib cb (Some m) (map Recv raws @ rest) received w
     = (Returned, w\<lparr>callback_state := s1, dispatched := dispatched w @ payloads\<rparr>)"
proof (induction raws arbitrary: payloads received w)
  case Nil
  then show ?case by simp
next
  case (Cons raw raws)
  from Cons.prems(1) obtain p ps where
    payloads: "payloads = p # ps"
    and p: "parse_ws_message lib raw = Inr p"
    and ps: "map (parse_ws_message lib) raws = map Inr ps"
    by (cases payloads) auto
  from Cons.prems(2) payloads obtain s' where
    f: "callback_fun cb (callback_state w) p = (None, s')"
    and acc: "accepts (callback_fun cb) ps s' = Some s1"
    by (auto split: prod.splits option.splits)
  let ?w1 = "w\<lparr>callback_state := s', dispatched := dispatched w @ [p]\<rparr>"
  have d: "dispatch_callback cb p w = (None, ?w1)"
    by (simp add: dispatch_callback_eq f)
  show ?case
  proof (cases "raws = []")
    case True
    with ps have "ps = []" by simp
    with acc have "s1 = s'" by simp
    with True Cons.prems(4) p d payloads \<open>ps = []\<close> show ?thesis
      by simp
  next
    case False
    then have "received + 1 < m"
      using Cons.prems(4) by (cases raws) auto
    moreover have "recv_loop lib cb (Some m) (map Recv raws @ rest) (received + 1) ?w1
        = (Returned, ?w1\<lparr>callback_state := s1, dispatched := dispatched ?w1 @ ps\<rparr>)"
      using Cons.prems(4) by (intro Cons.IH [OF ps _ False]) (simp_all add: acc)
    ultimately show ?thesis
      using p d payloads by simp
  qed
qed

text \<open>
  Claim C8: \<open>max_messages\<close> is a positive \<open>n\<close>, \<open>reconnect_attempts\<close> is not negative (so
  that a connection is opened at all), the first connection is established, takes the
  subscription frame and delivers \<open>n\<close> messages that parse to objects, and the callback
  takes their payloads without raising. Then \<open>subscribe_quotes\<close> returns, the callback has
  been given exactly these \<open>n\<close> payloads in order, one subscription frame has been sent and
  no reconnect sleep has taken place, whatever else the script holds.
\<close>

theorem subscribe_quotes_max_messages:
  assumes "0 < n" and "0 \<le> reconnect_attempts"
    and "connect_raises conn = None" and "send_raises conn = None"
    and "frames conn = map Recv raws @ rest" and "length raws = n"
    and "map (parse_ws_message lib) raws = map Inr payloads"
    and "accepts (callback_fun cb) payloads s0 = Some s1"
  shows "subscribe_quotes lib s exchange cb reconnect_attempts reconnect_delay (Some (int n))
           (conn # conns) s0
         = (Returned, \<lparr>callback_state = s1, sent_frames = [subscribe_message s exchange],
                       dispatched = payloads, sleeps = []\<rparr>)
         \<and> length payloads = n"
proof -
  let ?w = "\<lparr>callback_state = s0, sent_frames = [subscribe_message s exchange],
             dispatched = [], sleeps = []\<rparr>"
  have raws: "raws \<noteq> []"
    using assms(1,6) by auto
  have "recv_loop lib cb (Some (int n)) (map Recv raws @ rest) 0 ?w
      = (Returned, ?w\<lparr>callback_state := s1, dispatched := dispatched ?w @ payloads\<rparr>)"
    using assms(6) by (intro recv_loop_delivers [OF assms(7) _ raws]) (simp_all add: assms(8))
  then have "try_body lib cb (Some (int n)) s exchange conn
      \<lparr>callback_state = s0, sent_frames = [], dispatched = [], sleeps = []\<rparr>
      = (Returned, \<lparr>callback_state = s1, sent_frames = [subscribe_message s exchange],
                    dispatched = payloads, sleeps = []\<rparr>)"
    by (simp add: try_body_def assms(3,4,5))
  then have "subscribe_quotes lib s exchange cb reconnect_attempts reconnect_delay (Some (int n))
           (conn # conns) s0
         = (Returned, \<lparr>callback_state = s1, sent_frames = [subscribe_message s exchange],
                       dispatched = payloads, sleeps = []\<rparr>)"
    using assms(2) by (simp add: subscribe_quotes_def)
  moreover have "length payloads = n"
    using assms(6,7) by (metis length_map)
  ultimately show ?thesis by simp
qed

theorem subscribe_quotes_max_messages_witness:
  "subscribe_quotes demo_lib ''USD/RUB'' ''CETS'' counting_callback 3 1 (Some 1)
     [open_connection [Recv (Str ''{}''), Recv (Str ''[]'')]] 0
   = (Returned, \<lparr>callback_state = 1, sent_frames = [subscribe_message ''USD/RUB'' ''CETS''],
                 dispatched = [JObj []], sleeps = []\<rparr>)
   \<and> subscribe_quotes demo_lib ''USD/RUB'' ''CETS'' counting_callback 0 1 (Some 2)
       [open_connection [Recv (Str ''{}''), Recv (Bytes ''{}''), RecvRaises (Exn ConnectionClosedError (Text ''closed'') None)]] 0
     = (Returned, \<lparr>callback_state = 2, sent_frames = [subscribe_message ''USD/RUB'' ''CETS''],
                   dispatched = [JObj [], JObj []], sleeps = []\<rparr>)"
proof -
  let ?c1 = "open_connection [Recv (Str ''{}''), Recv (Str ''[]'')]"
  let ?c2 = "open_connection [Recv (Str ''{}''), Recv (Bytes ''{}''),
               RecvRaises (Exn ConnectionClosedError (Text ''closed'') None)]"
  have p: "parse_ws_message demo_lib (Str ''{}'') = Inr (JObj [])"
    "parse_ws_message demo_lib (Bytes ''{}'') = Inr (JObj [])"
    by (simp_all add: parse_ws_message_def demo_lib_def dict_get_def)
  have a: "subscribe_quotes demo_lib ''USD/RUB'' ''CETS'' counting_callback 3 1 (Some (int 1))
             (?c1 # []) 0
           = (Returned, \<lparr>callback_state = 1, sent_frames = [subscribe_message ''USD/RUB'' ''CETS''],
                 dispatched = [JObj []], sleeps = []\<rparr>) \<and> length [JObj []] = 1"
    by (rule subscribe_quotes_max_messages [where raws = "[Str ''{}'']" and rest = "[Recv (Str ''[]'')]"])
       (simp_all add: open_connection_def p counting_callback_def)
  have b: "subscribe_quotes demo_lib ''USD/RUB'' ''CETS'' counting_callback 0 1 (Some (int 2))
             (?c2 # []) 0
           = (Returned, \<lparr>callback_state = 2, sent_frames = [subscribe_message ''USD/RUB'' ''CETS''],
                 dispatched = [JObj [], JObj []], sleeps = []\<rparr>) \<and> length [JObj [], JObj []] = 2"
    by (rule subscribe_quotes_max_messages [where raws = "[Str ''{}'', Bytes ''{}'']"
          and rest = "[RecvRaises (Exn ConnectionClosedError (Text ''closed'') None)]"])
       (simp_all add: open_connection_def p counting_callback_def)
  from a b show ?thesis by simp
qed

lemma recv_loop_callback_raises:
  "map (parse_ws_message lib) raws = map Inr payloads \<Longrightarrow>
   accepts (callback_fun cb) payloads (callback_state w) = Some s1 \<Longrightarrow>
   parse_ws_message lib raw = Inr payload \<Longrightarrow>
   callback_fun cb s1 payload = (Some exc, s2) \<Longrightarrow>
   (case max_messages of None \<Rightarrow> True
    | Some m \<Rightarrow> raws = [] \<or> received + int (length raws) < m) \<Longrightarrow>
   recv_loop lib cb max_messages (map Recv raws @ Recv raw # rest) received w
     = (Raised exc, w\<lparr>callback_state := s2, dispatched := dispatched w @ payloads @ [payload]\<rparr>)"
proof (induction raws arbitrary: payloads received w)
  case Nil
  then show ?case
    by (simp add: dispatch_callback_eq)
next
  case (Cons r raws)
  from Cons.prems(1) obtain p ps where
    payloads: "payloads = p # ps"
    and p: "parse_ws_message lib r = Inr p"
    and ps: "map (parse_ws_message lib) raws = map Inr ps"
    by (cases payloads) auto
  from Cons.prems(2) payloads obtain s' where
    f: "callback_fun cb (callback_state w) p = (None, s')"
    and acc: "accepts (callback_fun cb) ps s' = Some s1"
    by (auto split: prod.splits option.splits)
  let ?w1 = "w\<lparr>callback_state := s', dispatched := dispatched w @ [p]\<rparr>"
  have d: "dispatch_callback cb p w = (None, ?w1)"
    by (simp add: dispatch_callback_eq f)
  have go_on: "\<not> (case max_messages of None \<Rightarrow> False | Some m \<Rightarrow> received + 1 \<ge> m)"
    using Cons.prems(5) by (auto split: option.splits)
  have bound: "case max_messages of None \<Rightarrow> True
    | Some m \<Rightarrow> raws = [] \<or> (received + 1) + int (length raws) < m"
    using Cons.prems(5) by (auto split: option.splits)
  have "recv_loop lib cb max_messages (map Recv raws @ Recv raw # rest) (received + 1) ?w1
      = (Raised exc, ?w1\<lparr>callback_state := s2, dispatched := dispatched ?w1 @ ps @ [payload]\<rparr>)"
    by (intro Cons.IH [OF ps _ Cons.prems(3,4) bound]) (simp add: acc)
  with p d go_on payloads show ?case
    by simp
qed

lemma isinstance_AlorAuthError:
  "isinstance exc AlorAuthError \<Longrightarrow>
     \<not> isinstance exc ConnectionClosedError \<and> \<not> isinstance exc WebSocketException"
  by (cases "exn_class exc") (auto simp: isinstance_def)

lemma isinstance_AlorConnectionError:
  "isinstance exc AlorConnectionError \<Longrightarrow>
     \<not> isinstance exc ConnectionClosedError \<and> \<not> isinstance exc WebSocketException
     \<and> \<not> isinstance exc AlorAuthError"
  by (cases "exn_class exc") (auto simp: isinstance_def)

text \<open>
  Claim C6 says that an \<open>AlorConnectionError\<close> raised by the callback reaches the caller
  of \<open>subscribe_quotes\<close> as it is. The handlers re-raise an \<open>AlorAuthError\<close> only: a
  callback that raises an \<open>AlorConnectionError\<close> at the first message makes the call
  raise an \<open>AlorAPIError\<close> whose cause is that exception.
\<close>

theorem callback_connection_error_is_wrapped:
  "fst (subscribe_quotes demo_lib ''USD/RUB'' ''CETS''
          (raising_callback 0 (Exn AlorConnectionError (Text ''feed down'') None)) 3 1 None
          [open_connection [Recv (Str ''{}'')]] 0)
     = Raised (Exn AlorAPIError Unhandled (Some (Exn AlorConnectionError (Text ''feed down'') None)))
   \<and> fst (subscribe_quotes demo_lib ''USD/RUB'' ''CETS''
          (raising_callback 0 (Exn AlorConnectionError (Text ''feed down'') None)) 3 1 None
          [open_connection [Recv (Str ''{}'')]] 0)
     \<noteq> Raised (Exn AlorConnectionError (Text ''feed down'') None)"
  by (simp add: subscribe_quotes_def try_body_def open_connection_def parse_ws_message_def
        demo_lib_def dict_get_def dispatch_callback_def raising_callback_def isinstance_def)

text \<open>
  Claim C6 as the source has it, for any pass of the reconnect loop (\<open>subscribe_quotes\<close> is
  the loop entered with \<open>attempts = 0\<close> and nothing sent, dispatched or slept yet). The
  connection of this pass is established and takes the subscription frame, the callback
  takes the payloads of its first messages without raising (and \<open>max_messages\<close> does not
  end the call among them), and at the next payload it raises \<open>exc\<close>. Then: an
  \<open>AlorAuthError\<close> reaches the caller as it is; an exception of the websocket library
  (\<open>ConnectionClosedError\<close>, \<open>WebSocketException\<close>) is handled as a lost connection, that
  is, with no attempt left the call raises an \<open>AlorConnectionError\<close> whose cause is
  \<open>exc\<close>, and otherwise it sleeps and goes on with the next connection; every other
  exception, an \<open>AlorConnectionError\<close> among them, reaches the caller as an
  \<open>AlorAPIError\<close> whose cause is \<open>exc\<close>.
\<close>

theorem callback_error_propagation:
  assumes "attempts \<le> reconnect_attempts"
    and "connect_raises conn = None" and "send_raises conn = None"
    and "frames conn = map Recv raws @ Recv raw # rest"
    and "map (parse_ws_message lib) raws = map Inr payloads"
    and "parse_ws_message lib raw = Inr payload"
    and "accepts (callback_fun cb) payloads (callback_state w) = Some st"
    and "callback_fun cb st payload = (Some exc, st')"
    and "case max_messages of None \<Rightarrow> True | Some m \<Rightarrow> raws = [] \<or> int (length raws) < m"
    and "tr = w\<lparr>callback_state := st',
                 sent_frames := sent_frames w @ [subscribe_message s exchange],
                 dispatched := dispatched w @ payloads @ [payload]\<rparr>"
    and "res = subscribe_loop lib cb reconnect_attempts reconnect_delay max_messages s exchange
                 (conn # conns) attempts w"
  shows "(isinstance exc AlorAuthError \<longrightarrow> res = (Raised exc, tr))
     \<and> (isinstance exc AlorConnectionError \<longrightarrow>
          res = (Raised (Exn AlorAPIError Unhandled (Some exc)), tr))
     \<and> (\<not> isinstance exc AlorAuthError \<and> \<not> isinstance exc ConnectionClosedError
          \<and> \<not> isinstance exc WebSocketException \<longrightarrow>
          res = (Raised (Exn AlorAPIError Unhandled (Some exc)), tr))
     \<and> (isinstance exc ConnectionClosedError \<or> isinstance exc WebSocketException \<longrightarrow>
          res = (if attempts + 1 > reconnect_attempts
                 then (Raised (Exn AlorConnectionError WsNotRestored (Some exc)), tr)
                 else subscribe_loop lib cb reconnect_attempts reconnect_delay max_messages
                        s exchange conns (attempts + 1)
                        (tr\<lparr>sleeps := sleeps tr @ [reconnect_delay]\<rparr>)))"
proof -
  let ?w = "w\<lparr>sent_frames := sent_frames w @ [subscribe_message s exchange]\<rparr>"
  have bound: "case max_messages of None \<Rightarrow> True
    | Some m \<Rightarrow> raws = [] \<or> 0 + int (length raws) < m"
    using assms(9) by (cases max_messages) simp_all
  have "recv_loop lib cb max_messages (map Recv raws @ Recv raw # rest) 0 ?w
      = (Raised exc, ?w\<lparr>callback_state := st', dispatched := dispatched ?w @ payloads @ [payload]\<rparr>)"
    by (intro recv_loop_callback_raises [OF assms(5) _ assms(6) assms(8) bound])
       (simp add: assms(7))
  then have body: "try_body lib cb max_messages s exchange conn w = (Raised exc, tr)"
    by (simp add: try_body_def assms(2,3,4,10))
  have auth: "isinstance exc AlorAuthError \<longrightarrow> res = (Raised exc, tr)"
    using body assms(1) isinstance_AlorAuthError [of exc]
    by (simp add: assms(11))
  have other: "\<not> isinstance exc AlorAuthError \<and> \<not> isinstance exc ConnectionClosedError
          \<and> \<not> isinstance exc WebSocketException \<longrightarrow>
          res = (Raised (Exn AlorAPIError Unhandled (Some exc)), tr)"
    using body assms(1) by (simp add: assms(11))
  have conn: "isinstance exc AlorConnectionError \<longrightarrow>
          res = (Raised (Exn AlorAPIError Unhandled (Some exc)), tr)"
    using other isinstance_AlorConnectionError [of exc] by blast
  have ws: "isinstance exc ConnectionClosedError \<or> isinstance exc WebSocketException \<longrightarrow>
          res = (if attempts + 1 > reconnect_attempts
                 then (Raised (Exn AlorConnectionError WsNotRestored (Some exc)), tr)
                 else subscribe_loop lib cb reconnect_attempts reconnect_delay max_messages
                        s exchange conns (attempts + 1)
                        (tr\<lparr>sleeps := sleeps tr @ [reconnect_delay]\<rparr>))"
    using body assms(1) by (auto simp: assms(11) Let_def)
  from auth conn other ws show ?thesis
    by (intro conjI)
qed

theorem callback_error_propagation_witness:
  "subscribe_quotes demo_lib ''USD/RUB'' ''CETS''
       (raising_callback 1 (Exn AlorAuthError (Text ''bad token'') None)) 3 1 (Some 5)
       [open_connection [Recv (Str ''{}''), Recv (Str ''{}'')]] 0
     = (Raised (Exn AlorAuthError (Text ''bad token'') None),
        \<lparr>callback_state = 1, sent_frames = [subscribe_message ''USD/RUB'' ''CETS''],
         dispatched = [JObj []] @ [JObj []], sleeps = []\<rparr>)
   \<and> subscribe_quotes demo_lib ''USD/RUB'' ''CETS''
       (raising_callback 0 (Exn AlorConnectionError (Text ''feed down'') None)) 3 1 None
       [open_connection [Recv (Str ''{}'')]] 0
     = (Raised (Exn AlorAPIError Unhandled
                  (Some (Exn AlorConnectionError (Text ''feed down'') None))),
        \<lparr>callback_state = 0, sent_frames = [subscribe_message ''USD/RUB'' ''CETS''],
         dispatched = [] @ [JObj []], sleeps = []\<rparr>)
   \<and> subscribe_quotes demo_lib ''USD/RUB'' ''CETS''
       (raising_callback 0 (Exn (OtherError ''KeyError'') (Text ''price'') None)) 3 1 None
       [open_connection [Recv (Str ''{}'')]] 0
     = (Raised (Exn AlorAPIError Unhandled
                  (Some (Exn (OtherError ''KeyError'') (Text ''price'') None))),
        \<lparr>callback_state = 0, sent_frames = [subscribe_message ''USD/RUB'' ''CETS''],
         dispatched = [] @ [JObj []], sleeps = []\<rparr>)
   \<and> subscribe_quotes demo_lib ''USD/RUB'' ''CETS''
       (raising_callback 0 (Exn ConnectionClosedError (Text ''closed'') None)) 0 1 None
       [open_connection [Recv (Str ''{}'')]] 0
     = (Raised (Exn AlorConnectionError WsNotRestored
                  (Some (Exn ConnectionClosedError (Text ''closed'') None))),
        \<lparr>callback_state = 0, sent_frames = [subscribe_message ''USD/RUB'' ''CETS''],
         dispatched = [] @ [JObj []], sleeps = []\<rparr>)"
proof -
  note fixtures = open_connection_def raising_callback_def isinstance_def
  let ?w0 = "\<lparr>callback_state = 0::nat, sent_frames = [], dispatched = [], sleeps = []\<rparr>"
  have p: "parse_ws_message demo_lib (Str ''{}'') = Inr (JObj [])"
    by (simp add: parse_ws_message_def demo_lib_def dict_get_def)
  let ?auth = "Exn AlorAuthError (Text ''bad token'') None"
  let ?conn = "Exn AlorConnectionError (Text ''feed down'') None"
  let ?key = "Exn (OtherError ''KeyError'') (Text ''price'') None"
  let ?closed = "Exn ConnectionClosedError (Text ''closed'') None"
  have a: "isinstance ?auth AlorAuthError"
    by (simp add: isinstance_def)
  have b: "isinstance ?conn AlorConnectionError"
    by (simp add: isinstance_def)
  have c: "\<not> isinstance ?key AlorAuthError \<and> \<not> isinstance ?key ConnectionClosedError
          \<and> \<not> isinstance ?key WebSocketException"
    by (simp add: isinstance_def)
  have d: "isinstance ?closed ConnectionClosedError \<or> isinstance ?closed WebSocketException"
    by (simp add: isinstance_def)
  note a' = callback_error_propagation
    [where lib = demo_lib and cb = "raising_callback 1 ?auth" and exc = ?auth
       and raws = "[Str ''{}'']" and raw = "Str ''{}''" and rest = "[]"
       and payloads = "[JObj []]" and payload = "JObj []" and w = ?w0 and st = 1 and st' = 1
       and attempts = 0
       and max_messages = "Some 5" and reconnect_attempts = 3 and reconnect_delay = 1
       and conn = "open_connection [Recv (Str ''{}''), Recv (Str ''{}'')]" and conns = "[]"
       and s = "''USD/RUB''" and exchange = "''CETS''",
     OF _ _ _ _ _ _ _ _ _ refl refl, THEN conjunct1, rule_format, OF _ _ _ _ _ _ _ _ _ a]
  note b' = callback_error_propagation
    [where lib = demo_lib and cb = "raising_callback 0 ?conn" and exc = ?conn
       and raws = "[]" and raw = "Str ''{}''" and rest = "[]"
       and payloads = "[]" and payload = "JObj []" and w = ?w0 and st = 0 and st' = 0
       and attempts = 0
       and max_messages = None and reconnect_attempts = 3 and reconnect_delay = 1
       and conn = "open_connection [Recv (Str ''{}'')]" and conns = "[]"
       and s = "''USD/RUB''" and exchange = "''CETS''",
     OF _ _ _ _ _ _ _ _ _ refl refl, THEN conjunct2, THEN conjunct1, rule_format,
     OF _ _ _ _ _ _ _ _ _ b]
  note c' = callback_error_propagation
    [where lib = demo_lib and cb = "raising_callback 0 ?key" and exc = ?key
       and raws = "[]" and raw = "Str ''{}''" and rest = "[]"
       and payloads = "[]" and payload = "JObj []" and w = ?w0 and st = 0 and st' = 0
       and attempts = 0
       and max_messages = None and reconnect_attempts = 3 and reconnect_delay = 1
       and conn = "open_connection [Recv (Str ''{}'')]" and conns = "[]"
       and s = "''USD/RUB''" and exchange = "''CETS''",
     OF _ _ _ _ _ _ _ _ _ refl refl, THEN conjunct2, THEN conjunct2, THEN conjunct1, rule_format,
     OF _ _ _ _ _ _ _ _ _ c]
  note d' = callback_error_propagation
    [where lib = demo_lib and cb = "raising_callback 0 ?closed" and exc = ?closed
       and raws = "[]" and raw = "Str ''{}''" and rest = "[]"
       and payloads = "[]" and payload = "JObj []" and w = ?w0 and st = 0 and st' = 0
       and attempts = 0
       and max_messages = None and reconnect_attempts = 0 and reconnect_delay = 1
       and conn = "open_connection [Recv (Str ''{}'')]" and conns = "[]"
       and s = "''USD/RUB''" and exchange = "''CETS''",
     OF _ _ _ _ _ _ _ _ _ refl refl, THEN conjunct2, THEN conjunct2, THEN conjunct2, rule_format,
     OF _ _ _ _ _ _ _ _ _ d]
  have r1: "subscribe_quotes demo_lib ''USD/RUB'' ''CETS''
       (raising_callback 1 ?auth) 3 1 (Some 5)
       [open_connection [Recv (Str ''{}''), Recv (Str ''{}'')]] 0
     = (Raised ?auth,
        \<lparr>callback_state = 1, sent_frames = [subscribe_message ''USD/RUB'' ''CETS''],
         dispatched = [JObj []] @ [JObj []], sleeps = []\<rparr>)"
    unfolding subscribe_quotes_def using a' by (simp add: fixtures p)
  have r2: "subscribe_quotes demo_lib ''USD/RUB'' ''CETS''
       (raising_callback 0 ?conn) 3 1 None [open_connection [Recv (Str ''{}'')]] 0
     = (Raised (Exn AlorAPIError Unhandled (Some ?conn)),
        \<lparr>callback_state = 0, sent_frames = [subscribe_message ''USD/RUB'' ''CETS''],
         dispatched = [] @ [JObj []], sleeps = []\<rparr>)"
    unfolding subscribe_quotes_def using b' by (simp add: fixtures p)
  have r3: "subscribe_quotes demo_lib ''USD/RUB'' ''CETS''
       (raising_callback 0 ?key) 3 1 None [open_connection [Recv (Str ''{}'')]] 0
     = (Raised (Exn AlorAPIError Unhandled (Some ?key)),
        \<lparr>callback_state = 0, sent_frames = [subscribe_message ''USD/RUB'' ''CETS''],
         dispatched = [] @ [JObj []], sleeps = []\<rparr>)"
    unfolding subscribe_quotes_def using c' by (simp add: fixtures p)
  have r4: "subscribe_quotes demo_lib ''USD/RUB'' ''CETS''
       (raising_callback 0 ?closed) 0 1 None [open_connection [Recv (Str ''{}'')]] 0
     = (Raised (Exn AlorConnectionError WsNotRestored (Some ?closed)),
        \<lparr>callback_state = 0, sent_frames = [subscribe_message ''USD/RUB'' ''CETS''],
         dispatched = [] @ [JObj []], sleeps = []\<rparr>)"
    unfolding subscribe_quotes_def using d' by (simp add: fixtures p)
  from r1 r2 r3 r4 show ?thesis
    by (intro conjI)
qed

end
